theory Spec2Isabelle
  imports Complex_Main
begin

section \<open>The Taylor propagator with J2 and constant thrust\<close>

text \<open>
  A shallow embedding of \<^verbatim>\<open>propagate_taylor_J2_step\<close> and \<^verbatim>\<open>propagate_taylor_J2\<close>
  (file \<^verbatim>\<open>core_functions/propagate_taylor_J2.hpp\<close>).

  Conventions of the embedding.
  \<^item> A \<^verbatim>\<open>double\<close> is a \<open>real\<close>, and the values computed are those of real arithmetic:
    rounding and overflow are not modelled. \<^verbatim>\<open>pow(a, b)\<close> with \<open>a \<ge> 0\<close> and a finite \<open>b\<close>
    is \<open>a powr b\<close>, and \<^verbatim>\<open>M_E\<close> is \<open>exp 1\<close>.
  \<^item> Three computations of the entry point decide a branch or the size of a table, and
    their rounding can decide it the other way: \<^verbatim>\<open>pow(10., k)\<close>, the product in the test
    \<^verbatim>\<open>eps_r * xm < eps_a\<close> (made again in the step), and
    \<^verbatim>\<open>(int) (ceil(-0.5 * log(eps_m) + 1))\<close>. They are left to an \<^emph>\<open>arithmetic\<close>, a record of
    three functions that the functions of the model take as their first argument;
    \<open>exact\<close> is the arithmetic that does not round. A theorem that does not name \<open>exact\<close>
    holds of every arithmetic: also of one whose \<^verbatim>\<open>pow\<close> underflows to zero, or whose
    conversion to \<^verbatim>\<open>int\<close> is out of range.
  \<^item> The estimate of the step size divides by norms that can be zero, and at order 1
    its exponent \<^verbatim>\<open>1. / (n - 1)\<close> is infinite: there the model has the values of IEEE
    arithmetic (type \<open>ext\<close>).
  \<^item> The coefficient generator divides by the squared radius, by the mass and by
    \<^verbatim>\<open>veff\<close>. From a state in which one of them is zero, and when the step size is not a
    number (\<^verbatim>\<open>0. / 0.\<close>), the source goes on with a state of infinities and NaNs, which
    the \<open>real\<close>s of the model do not hold: the step of the model ends there with
    \<open>NotFinite\<close>, which is not an exception of the source. (The generator taken alone
    has HOL's \<open>x / 0 = 0\<close> there; the theorems on it state its entries as the same
    quotients, or do not depend on them.)
  \<^item> An \<^verbatim>\<open>int\<close> is an \<open>int\<close>. The counter \<^verbatim>\<open>j\<close> is incremented only while it is below
    \<^verbatim>\<open>max_iter\<close>, so its increment does not overflow. The test \<^verbatim>\<open>j > max_iter - 1\<close> is
    made in the integers, where it is \<open>j \<ge> max_iter\<close>; at \<open>max_iter = -2^31\<close> the
    subtraction of the source overflows, which is undefined behaviour.
  \<^item> The template type \<^verbatim>\<open>T\<close> (\<^verbatim>\<open>std::array<double,3>\<close>) is a triple, a
    \<^verbatim>\<open>std::array<double,N>\<close> row of a coefficient table is a function from the index,
    and a \<^verbatim>\<open>std::vector\<close> of rows is a list.
  \<^item> The arguments passed by reference and mutated (\<^verbatim>\<open>r0\<close>, \<^verbatim>\<open>v0\<close>, \<^verbatim>\<open>m0\<close>) are a
    record that every function takes and returns; an exception leaves in it what the
    completed steps wrote.
\<close>

subsection \<open>Data\<close>

type_synonym vec3 = "real \<times> real \<times> real"

definition ix0 :: "vec3 \<Rightarrow> real" where "ix0 v = fst v"
definition ix1 :: "vec3 \<Rightarrow> real" where "ix1 v = fst (snd v)"
definition ix2 :: "vec3 \<Rightarrow> real" where "ix2 v = snd (snd v)"

record body =
  r0 :: vec3
  v0 :: vec3
  m0 :: real

text \<open>
  The two \<^verbatim>\<open>throw_value_error\<close> calls of the source are told apart by their message;
  \<open>LengthError\<close> is the \<^verbatim>\<open>std::length_error\<close> of \<^verbatim>\<open>std::vector::assign\<close> called with a
  negative count, and \<open>OutOfBounds\<close> stands for an access outside a coefficient table
  (undefined behaviour in the source). \<open>NotFinite\<close> is not an exception: it marks a
  step whose result is infinite or not a number, where the model stops.
\<close>

datatype error = OrderExceeded | IterationLimitExceeded | LengthError | OutOfBounds | NotFinite

subsection \<open>Arithmetic\<close>

text \<open>
  The three computations left to the arithmetic: \<open>d_pow10 k\<close> is the \<^verbatim>\<open>double\<close> that
  \<^verbatim>\<open>pow(10., k)\<close> returns, \<open>d_mul x y\<close> the rounded product \<^verbatim>\<open>x * y\<close>, and \<open>d_order e\<close> the
  \<^verbatim>\<open>int\<close> that \<^verbatim>\<open>(int) (ceil(-0.5 * log(e) + 1))\<close> evaluates to.
\<close>

record arith =
  d_pow10 :: "int \<Rightarrow> real"
  d_mul :: "real \<Rightarrow> real \<Rightarrow> real"
  d_order :: "real \<Rightarrow> int"

text \<open>
  The same three expressions in real arithmetic; the third for \<open>e > 0\<close>, where the source
  has a logarithm.
\<close>

definition exact :: arith where
  "exact = \<lparr>d_pow10 = (\<lambda>k. 10 powr real_of_int k), d_mul = (\<lambda>x y. x * y),
            d_order = (\<lambda>e. \<lceil>- 0.5 * ln e + 1\<rceil>)\<rparr>"

text \<open>
  A \<^verbatim>\<open>double\<close> that may be infinite or not a number: the value of a quotient whose
  divisor may be zero, and what is computed from it.
\<close>

datatype ext = Fin real | PInf | MInf | NaN

text \<open>\<^verbatim>\<open>a / b\<close>, for a divisor that is not \<^verbatim>\<open>-0.\<close> (here it is a norm).\<close>

definition ext_div :: "real \<Rightarrow> real \<Rightarrow> ext" where
  "ext_div a b = (if b = 0 then (if a = 0 then NaN else if 0 < a then PInf else MInf) else Fin (a / b))"

text \<open>
  \<^verbatim>\<open>pow(x, 1. / k)\<close> for an \<^verbatim>\<open>int\<close> \<open>k \<ge> 0\<close>. The exponent is \<open>+\<infinity>\<close> for \<open>k = 0\<close>, it is 1 for
  \<open>k = 1\<close>, and beyond it is positive, below 1 and not an integer; the cases are those of
  the C standard (Annex F) for such exponents.
\<close>

definition pow_inv :: "ext \<Rightarrow> nat \<Rightarrow> ext" where
  "pow_inv x k =
     (case x of
        NaN \<Rightarrow> NaN
      | PInf \<Rightarrow> PInf
      | MInf \<Rightarrow> (if k = 1 then MInf else PInf)
      | Fin v \<Rightarrow>
          if k = 0 then (if \<bar>v\<bar> < 1 then Fin 0 else if \<bar>v\<bar> = 1 then Fin 1 else PInf)
          else if 0 \<le> v then Fin (v powr (1 / real k))
          else if k = 1 then Fin v
          else NaN)"

text \<open>\<^verbatim>\<open>a < b\<close>, false when either is not a number.\<close>

fun ext_less :: "ext \<Rightarrow> ext \<Rightarrow> bool" where
  "ext_less (Fin a) (Fin b) = (a < b)"
| "ext_less (Fin a) PInf = True"
| "ext_less MInf (Fin b) = True"
| "ext_less MInf PInf = True"
| "ext_less _ _ = False"

text \<open>\<^verbatim>\<open>std::min(a, b)\<close>, which is \<^verbatim>\<open>(b < a) ? b : a\<close>.\<close>

definition ext_min :: "ext \<Rightarrow> ext \<Rightarrow> ext" where
  "ext_min a b = (if ext_less b a then b else a)"

fun ext_neg :: "ext \<Rightarrow> ext" where
  "ext_neg (Fin a) = Fin (- a)"
| "ext_neg PInf = MInf"
| "ext_neg MInf = PInf"
| "ext_neg NaN = NaN"

fun ext_abs :: "ext \<Rightarrow> ext" where
  "ext_abs (Fin a) = Fin \<bar>a\<bar>"
| "ext_abs PInf = PInf"
| "ext_abs MInf = PInf"
| "ext_abs NaN = NaN"

text \<open>\<^verbatim>\<open>x / c\<close> for a finite \<open>c > 0\<close>.\<close>

fun ext_over :: "ext \<Rightarrow> real \<Rightarrow> ext" where
  "ext_over (Fin a) c = Fin (a / c)"
| "ext_over x c = x"

subsection \<open>Coefficient tables\<close>

type_synonym row = "nat \<Rightarrow> real"
type_synonym table = "row list"
type_synonym tabs = "table \<times> table"

definition rd :: "table \<Rightarrow> nat \<Rightarrow> nat \<Rightarrow> real" where
  "rd t n k = (t ! n) k"

definition wr :: "table \<Rightarrow> nat \<Rightarrow> nat \<Rightarrow> real \<Rightarrow> table" where
  "wr t n k v = t[n := (t ! n)(k := v)]"

text \<open>\<^verbatim>\<open>_x.assign(order + 1, dumb)\<close> and \<^verbatim>\<open>_u.assign(order, dumb2)\<close>: rows of zeros.\<close>

definition assign_table :: "nat \<Rightarrow> table" where
  "assign_table n = replicate n (\<lambda>k. 0)"

subsection \<open>Statements on the pair of tables \<open>(x, u)\<close>\<close>

text \<open>
  \<open>set_u n k e\<close> is \<^verbatim>\<open>u[n][k] = e\<close>, \<open>set_x n k e\<close> is \<^verbatim>\<open>x[n][k] = e\<close>, and
  \<open>add_u n k js term\<close> is \<^verbatim>\<open>for (j in js) u[n][k] += term(j)\<close>; the expressions read
  the tables as they are when the statement runs.
\<close>

definition set_u :: "nat \<Rightarrow> nat \<Rightarrow> (tabs \<Rightarrow> real) \<Rightarrow> tabs \<Rightarrow> tabs" where
  "set_u n k e s = (fst s, wr (snd s) n k (e s))"

definition set_x :: "nat \<Rightarrow> nat \<Rightarrow> (tabs \<Rightarrow> real) \<Rightarrow> tabs \<Rightarrow> tabs" where
  "set_x n k e s = (wr (fst s) n k (e s), snd s)"

definition add_u :: "nat \<Rightarrow> nat \<Rightarrow> nat list \<Rightarrow> (nat \<Rightarrow> tabs \<Rightarrow> real) \<Rightarrow> tabs \<Rightarrow> tabs" where
  "add_u n k js term s = foldl (\<lambda>s j. set_u n k (\<lambda>s. rd (snd s) n k + term j s) s) s js"

definition seq :: "(tabs \<Rightarrow> tabs) list \<Rightarrow> tabs \<Rightarrow> tabs" where
  "seq stmts s = foldl (\<lambda>s f. f s) s stmts"

abbreviation X :: "tabs \<Rightarrow> nat \<Rightarrow> nat \<Rightarrow> real" where "X s \<equiv> rd (fst s)"
abbreviation U :: "tabs \<Rightarrow> nat \<Rightarrow> nat \<Rightarrow> real" where "U s \<equiv> rd (snd s)"

subsection \<open>The Taylor coefficient generator (lines 47 to 146)\<close>

definition alpha :: real where "alpha = - 1.5"
definition beta :: real where "beta = - 1"

definition sqrtT :: "vec3 \<Rightarrow> real" where
  "sqrtT thrust = sqrt (ix0 thrust * ix0 thrust + ix1 thrust * ix1 thrust + ix2 thrust * ix2 thrust)"

definition init_x :: "body \<Rightarrow> (tabs \<Rightarrow> tabs) list" where
  "init_x b =
    [set_x 0 0 (\<lambda>s. ix0 (r0 b)), set_x 0 1 (\<lambda>s. ix1 (r0 b)), set_x 0 2 (\<lambda>s. ix2 (r0 b)),
     set_x 0 3 (\<lambda>s. ix0 (v0 b)), set_x 0 4 (\<lambda>s. ix1 (v0 b)), set_x 0 5 (\<lambda>s. ix2 (v0 b)),
     set_x 0 6 (\<lambda>s. m0 b)]"

text \<open>Lines 61 to 76: the state, the squares and the squared radius.\<close>

definition stmts_geometry :: "nat \<Rightarrow> (tabs \<Rightarrow> tabs) list" where
  "stmts_geometry n =
    [set_u n 0 (\<lambda>s. X s n 0), set_u n 1 (\<lambda>s. X s n 1), set_u n 2 (\<lambda>s. X s n 2),
     set_u n 3 (\<lambda>s. X s n 3), set_u n 4 (\<lambda>s. X s n 4), set_u n 5 (\<lambda>s. X s n 5),
     set_u n 6 (\<lambda>s. X s n 6),
     add_u n 7 [0..<Suc n] (\<lambda>j s. U s j 0 * U s (n - j) 0),
     add_u n 8 [0..<Suc n] (\<lambda>j s. U s j 1 * U s (n - j) 1),
     add_u n 9 [0..<Suc n] (\<lambda>j s. U s j 2 * U s (n - j) 2),
     set_u n 10 (\<lambda>s. U s n 7 + U s n 8),
     set_u n 11 (\<lambda>s. U s n 10 + U s n 9)]"

text \<open>Lines 77 to 101: \<open>1 / r^3\<close>, the Keplerian acceleration and \<open>1 / m\<close>.\<close>

definition stmts_kepler :: "real \<Rightarrow> nat \<Rightarrow> (tabs \<Rightarrow> tabs) list" where
  "stmts_kepler mu n =
    (if n = 0 then [set_u n 12 (\<lambda>s. sqrt (1 / (U s n 11 * U s n 11 * U s n 11)))]
     else [add_u n 12 [0..<n] (\<lambda>j s. (alpha * real n - real j * (alpha + 1)) * U s (n - j) 11 * U s j 12),
           set_u n 12 (\<lambda>s. U s n 12 / (real n * U s 0 11))]) @
    [set_u n 13 (\<lambda>s. - U s n 12 * mu),
     add_u n 14 [0..<Suc n] (\<lambda>j s. U s j 0 * U s (n - j) 13),
     add_u n 15 [0..<Suc n] (\<lambda>j s. U s j 1 * U s (n - j) 13),
     add_u n 16 [0..<Suc n] (\<lambda>j s. U s j 2 * U s (n - j) 13)] @
    (if n = 0 then [set_u n 17 (\<lambda>s. 1 / U s 0 6)]
     else [add_u n 17 [0..<n] (\<lambda>j s. (beta * real n - real j * (beta + 1)) * U s (n - j) 6 * U s j 17),
           set_u n 17 (\<lambda>s. U s n 17 / (real n * U s 0 6))])"

text \<open>Lines 104 to 130: the J2 terms.\<close>

definition stmts_J2 :: "real \<Rightarrow> nat \<Rightarrow> (tabs \<Rightarrow> tabs) list" where
  "stmts_J2 J2RG2 n =
    [set_u n 18 (\<lambda>s. if n = 0 then 1 else 0)] @
    (if n = 0 then [set_u n 19 (\<lambda>s. 1 / U s 0 11)]
     else [add_u n 19 [0..<n] (\<lambda>j s. (beta * real n - real j * (beta + 1)) * U s (n - j) 11 * U s j 19),
           set_u n 19 (\<lambda>s. U s n 19 / (real n * U s 0 11))]) @
    [set_u n 20 (\<lambda>s. 3 / 2 * J2RG2 * U s n 19),
     add_u n 21 [0..<Suc n] (\<lambda>j s. U s j 9 * U s (n - j) 19),
     set_u n 22 (\<lambda>s. U s n 18 - 5 * U s n 21),
     add_u n 23 [0..<Suc n] (\<lambda>j s. U s j 20 * U s (n - j) 22),
     set_u n 24 (\<lambda>s. 3 * U s n 18 - 5 * U s n 21),
     add_u n 25 [0..<Suc n] (\<lambda>j s. U s j 20 * U s (n - j) 24),
     set_u n 26 (\<lambda>s. U s n 18 + U s n 23),
     set_u n 27 (\<lambda>s. U s n 18 + U s n 25),
     add_u n 28 [0..<Suc n] (\<lambda>j s. U s j 14 * U s (n - j) 26),
     add_u n 29 [0..<Suc n] (\<lambda>j s. U s j 15 * U s (n - j) 26),
     add_u n 30 [0..<Suc n] (\<lambda>j s. U s j 16 * U s (n - j) 27)]"

text \<open>Lines 133 to 144: the equations of motion and the coefficients of order \<open>n + 1\<close>.\<close>

definition stmts_update :: "vec3 \<Rightarrow> real \<Rightarrow> nat \<Rightarrow> (tabs \<Rightarrow> tabs) list" where
  "stmts_update thrust veff n =
    [set_u n 31 (\<lambda>s. U s n 28 + U s n 17 * ix0 thrust),
     set_u n 32 (\<lambda>s. U s n 29 + U s n 17 * ix1 thrust),
     set_u n 33 (\<lambda>s. U s n 30 + U s n 17 * ix2 thrust),
     set_x (n + 1) 0 (\<lambda>s. 1 / (real n + 1) * U s n 3),
     set_x (n + 1) 1 (\<lambda>s. 1 / (real n + 1) * U s n 4),
     set_x (n + 1) 2 (\<lambda>s. 1 / (real n + 1) * U s n 5),
     set_x (n + 1) 3 (\<lambda>s. 1 / (real n + 1) * U s n 31),
     set_x (n + 1) 4 (\<lambda>s. 1 / (real n + 1) * U s n 32),
     set_x (n + 1) 5 (\<lambda>s. 1 / (real n + 1) * U s n 33),
     set_x (n + 1) 6 (\<lambda>s. if n = 0 then - sqrtT thrust / veff else 0)]"

definition order_body :: "vec3 \<Rightarrow> real \<Rightarrow> real \<Rightarrow> real \<Rightarrow> nat \<Rightarrow> tabs \<Rightarrow> tabs" where
  "order_body thrust mu veff J2RG2 n =
     seq (stmts_geometry n @ stmts_kepler mu n @ stmts_J2 J2RG2 n @ stmts_update thrust veff n)"

text \<open>\<^verbatim>\<open>while (n < order) { ...; n++; }\<close>\<close>

function coeff_while :: "vec3 \<Rightarrow> real \<Rightarrow> real \<Rightarrow> real \<Rightarrow> nat \<Rightarrow> nat \<Rightarrow> tabs \<Rightarrow> tabs" where
  "coeff_while thrust mu veff J2RG2 order n s =
     (if n < order then coeff_while thrust mu veff J2RG2 order (Suc n) (order_body thrust mu veff J2RG2 n s)
      else s)"
  by pat_completeness auto
termination
  by (relation "measure (\<lambda>(thrust, mu, veff, J2RG2, order, n, s). order - n)") auto

definition taylor_coefficients ::
  "body \<Rightarrow> nat \<Rightarrow> vec3 \<Rightarrow> real \<Rightarrow> real \<Rightarrow> real \<Rightarrow> tabs \<Rightarrow> tabs" where
  "taylor_coefficients b order thrust mu veff J2RG2 s =
     coeff_while thrust mu veff J2RG2 order 0 (seq (init_x b) s)"

subsection \<open>One step (lines 152 to 192)\<close>

text \<open>
  The states from which the generator divides by zero, in \<^verbatim>\<open>1. / (r2 * r2 * r2)\<close>, in
  \<^verbatim>\<open>1. / m\<close> or in \<^verbatim>\<open>-sqrtT / veff\<close>: the coefficients of order 1 are then infinite or not
  numbers, and so is the state after the step.
\<close>

definition singular :: "body \<Rightarrow> real \<Rightarrow> bool" where
  "singular b veff \<longleftrightarrow> r0 b = (0, 0, 0) \<or> m0 b = 0 \<or> veff = 0"

text \<open>The infinity norm of a row of \<open>x\<close>, as the chain of \<^verbatim>\<open>std::max\<close> computes it.\<close>

definition norm_inf :: "row \<Rightarrow> real" where
  "norm_inf c = max (max (max (max (max (max \<bar>c 0\<bar> \<bar>c 1\<bar>) \<bar>c 2\<bar>) \<bar>c 3\<bar>) \<bar>c 4\<bar>) \<bar>c 5\<bar>) \<bar>c 6\<bar>"

text \<open>
  Lines 170 to 174, with \<open>n = order \<ge> 1\<close>. The norms \<open>xm_n\<close> and \<open>xm_n1\<close> may be zero, and
  \<^verbatim>\<open>1. / (n - 1)\<close> is \<open>+\<infinity>\<close> at order 1.
\<close>

definition rho_m :: "arith \<Rightarrow> real \<Rightarrow> real \<Rightarrow> real \<Rightarrow> real \<Rightarrow> real \<Rightarrow> nat \<Rightarrow> ext" where
  "rho_m ar eps_a eps_r xm xm_n xm_n1 n =
     (if d_mul ar eps_r xm < eps_a
      then ext_min (pow_inv (ext_div 1 xm_n) n) (pow_inv (ext_div 1 xm_n1) (n - 1))
      else ext_min (pow_inv (ext_div xm xm_n) n) (pow_inv (ext_div xm xm_n1) (n - 1)))"

text \<open>\<^verbatim>\<open>step = rho_m / (M_E * M_E)\<close>\<close>

definition candidate_step :: "arith \<Rightarrow> real \<Rightarrow> real \<Rightarrow> real \<Rightarrow> real \<Rightarrow> real \<Rightarrow> nat \<Rightarrow> ext" where
  "candidate_step ar eps_a eps_r xm xm_n xm_n1 n =
     ext_over (rho_m ar eps_a eps_r xm xm_n xm_n1 n) (exp 1 * exp 1)"

text \<open>\<^verbatim>\<open>if (h < 0) step = -step; if (std::abs(step) > std::abs(h)) step = h;\<close>\<close>

definition clamp_step :: "real \<Rightarrow> ext \<Rightarrow> ext" where
  "clamp_step h step =
     (let step = (if h < 0 then ext_neg step else step)
      in if ext_less (Fin \<bar>h\<bar>) (ext_abs step) then Fin h else step)"

text \<open>The summation loop over \<open>j = 1, ..., order\<close>; the state is \<open>(r0, v0, steppow)\<close>.\<close>

definition horner_body :: "table \<Rightarrow> real \<Rightarrow> vec3 \<times> vec3 \<times> real \<Rightarrow> nat \<Rightarrow> vec3 \<times> vec3 \<times> real" where
  "horner_body x step acc j =
     (case acc of (r, v, steppow) \<Rightarrow>
        ((ix0 r + rd x j 0 * steppow, ix1 r + rd x j 1 * steppow, ix2 r + rd x j 2 * steppow),
         (ix0 v + rd x j 3 * steppow, ix1 v + rd x j 4 * steppow, ix2 v + rd x j 5 * steppow),
         steppow * step))"

definition horner :: "table \<Rightarrow> real \<Rightarrow> nat \<Rightarrow> vec3 \<Rightarrow> vec3 \<Rightarrow> vec3 \<times> vec3 \<times> real" where
  "horner x step order r v = foldl (horner_body x step) (r, v, step) [1..<Suc order]"

text \<open>
  The step takes the tables by reference. With \<open>order < 1\<close> it reads \<^verbatim>\<open>x[n - 1]\<close> or
  \<^verbatim>\<open>x[1]\<close> outside the table, and with tables shorter than \<open>order + 1\<close> and \<open>order\<close> rows
  the generator writes outside them: both are \<open>OutOfBounds\<close>. Otherwise it returns the
  step taken, with the new \<open>r0\<close>, \<open>v0\<close> and \<open>m0\<close>, unless these are not finite: from a
  singular state, or with a step that is not a number. (After the two \<^verbatim>\<open>if\<close>s the step is
  not infinite: an infinite one is longer than \<open>h\<close>.)
\<close>

definition propagate_taylor_J2_step ::
  "arith \<Rightarrow> body \<Rightarrow> real \<Rightarrow> int \<Rightarrow> vec3 \<Rightarrow> real \<Rightarrow> real \<Rightarrow> real \<Rightarrow> real \<Rightarrow> real \<Rightarrow> real \<Rightarrow> tabs
     \<Rightarrow> error + (body \<times> real)" where
  "propagate_taylor_J2_step ar b h order thrust mu veff J2RG2 xm eps_a eps_r s =
     (if order < 1 \<or> int (length (fst s)) < order + 1 \<or> int (length (snd s)) < order
      then Inl OutOfBounds
      else if singular b veff then Inl NotFinite
      else
        let n = nat order;
            x = fst (taylor_coefficients b n thrust mu veff J2RG2 s);
            xm_n = norm_inf (x ! n);
            xm_n1 = norm_inf (x ! (n - 1))
        in case clamp_step h (candidate_step ar eps_a eps_r xm xm_n xm_n1 n) of
             Fin step \<Rightarrow>
               let acc = horner x step n (r0 b) (v0 b)
               in Inr (\<lparr>r0 = fst acc, v0 = fst (snd acc), m0 = m0 b + rd x 1 6 * step\<rparr>, step)
           | _ \<Rightarrow> Inl NotFinite)"

subsection \<open>The stepping loop and the entry point (lines 243 to 273)\<close>

text \<open>The norm of the state, lines 251 to 256.\<close>

definition state_norm :: "body \<Rightarrow> real" where
  "state_norm b =
     max (max (max (max (max (max \<bar>ix0 (r0 b)\<bar> \<bar>ix1 (r0 b)\<bar>) \<bar>ix2 (r0 b)\<bar>) \<bar>ix0 (v0 b)\<bar>)
       \<bar>ix1 (v0 b)\<bar>) \<bar>ix2 (v0 b)\<bar>) \<bar>m0 b\<bar>"

text \<open>Lines 259 and 260.\<close>

definition select_eps_m :: "arith \<Rightarrow> real \<Rightarrow> real \<Rightarrow> real \<Rightarrow> real" where
  "select_eps_m ar eps_a eps_r xm = (if d_mul ar eps_r xm < eps_a then eps_a else eps_r)"

definition select_order :: "arith \<Rightarrow> real \<Rightarrow> real \<Rightarrow> real \<Rightarrow> int" where
  "select_order ar eps_a eps_r xm = d_order ar (select_eps_m ar eps_a eps_r xm)"

text \<open>
  One pass through the body of the \<^verbatim>\<open>for\<close> loop, from the remaining duration \<open>step\<close>:
  it throws, or it breaks after a step \<open>h\<close>, or it goes on after a step \<open>h\<close> with the
  remaining duration \<open>step - h\<close>. A negative count makes \<^verbatim>\<open>assign\<close> throw; \<^verbatim>\<open>order + 1\<close> is
  taken in the integers.
\<close>

datatype pass = Throw error | Break body real | Continue body real real

definition J2_iteration ::
  "arith \<Rightarrow> vec3 \<Rightarrow> real \<Rightarrow> real \<Rightarrow> real \<Rightarrow> real \<Rightarrow> real \<Rightarrow> int \<Rightarrow> real \<Rightarrow> body \<Rightarrow> pass" where
  "J2_iteration ar u mu veff J2RG2 eps_a eps_r max_order step b =
     (let xm = state_norm b;
          order = select_order ar eps_a eps_r xm
      in if order > max_order then Throw OrderExceeded
         else if order < 0 then Throw LengthError
         else
           case propagate_taylor_J2_step ar b step order u mu veff J2RG2 xm eps_a eps_r
                  (assign_table (nat (order + 1)), assign_table (nat order)) of
             Inl e \<Rightarrow> Throw e
           | Inr (b', h) \<Rightarrow> if \<bar>h\<bar> \<ge> \<bar>step\<bar> then Break b' h else Continue b' h (step - h))"

text \<open>
  What the loop leaves behind: the exception thrown inside it if any, the caller's
  state, the counter \<open>j\<close>, the remaining duration \<open>step\<close>, and the values returned by
  the calls of the step function, in order (a record of the execution, not a variable
  of the source).
\<close>

record loop_exit =
  raised :: "error option"
  exit_body :: body
  exit_j :: int
  exit_step :: real
  exit_hs :: "real list"

function J2_loop ::
  "arith \<Rightarrow> vec3 \<Rightarrow> real \<Rightarrow> real \<Rightarrow> real \<Rightarrow> real \<Rightarrow> real \<Rightarrow> int \<Rightarrow> int \<Rightarrow> int \<Rightarrow> real \<Rightarrow> body
     \<Rightarrow> real list \<Rightarrow> loop_exit" where
  "J2_loop ar u mu veff J2RG2 eps_a eps_r max_iter max_order j step b hs =
     (if j < max_iter then
        (case J2_iteration ar u mu veff J2RG2 eps_a eps_r max_order step b of
           Throw e \<Rightarrow> \<lparr>raised = Some e, exit_body = b, exit_j = j, exit_step = step, exit_hs = hs\<rparr>
         | Break b' h \<Rightarrow>
             \<lparr>raised = None, exit_body = b', exit_j = j, exit_step = step, exit_hs = hs @ [h]\<rparr>
         | Continue b' h step' \<Rightarrow>
             J2_loop ar u mu veff J2RG2 eps_a eps_r max_iter max_order (j + 1) step' b' (hs @ [h]))
      else \<lparr>raised = None, exit_body = b, exit_j = j, exit_step = step, exit_hs = hs\<rparr>)"
  by pat_completeness auto
termination
  by (relation "measure (\<lambda>(ar, u, mu, veff, J2RG2, eps_a, eps_r, max_iter, max_order, j, step, b, hs).
        nat (max_iter - j))") auto

text \<open>
  The entry point returns nothing: its caller has the exception, if one was thrown, and
  the state left in \<^verbatim>\<open>r0\<close>, \<^verbatim>\<open>v0\<close> and \<^verbatim>\<open>m0\<close>.
\<close>

definition propagate_taylor_J2 ::
  "arith \<Rightarrow> body \<Rightarrow> vec3 \<Rightarrow> real \<Rightarrow> real \<Rightarrow> real \<Rightarrow> real \<Rightarrow> int \<Rightarrow> int \<Rightarrow> int \<Rightarrow> int
     \<Rightarrow> error option \<times> body" where
  "propagate_taylor_J2 ar b u t0 mu veff J2RG2 log10tolerance log10rtolerance max_iter max_order =
     (let eps_a = d_pow10 ar log10tolerance;
          eps_r = d_pow10 ar log10rtolerance;
          ex = J2_loop ar u mu veff J2RG2 eps_a eps_r max_iter max_order 0 t0 b []
      in case raised ex of
           Some e \<Rightarrow> (Some e, exit_body ex)
         | None \<Rightarrow>
             if exit_j ex > max_iter - 1 then (Some IterationLimitExceeded, exit_body ex)
             else (None, exit_body ex))"

subsection \<open>Reference inputs\<close>

text \<open>The circular orbit of the specification's scenarios: unit radius, unit speed, unit mass.\<close>

definition circular_orbit :: body where
  "circular_orbit = \<lparr>r0 = (1, 0, 0), v0 = (0, 1, 0), m0 = 1\<rparr>"

text \<open>A state twice as far from the centre, of norm 2.\<close>

definition far_state :: body where
  "far_state = \<lparr>r0 = (2, 0, 0), v0 = (0, 1, 0), m0 = 1\<rparr>"

text \<open>
  Two arithmetics that are not exact. In the first the products come out below the real
  product by one part in \<open>2^53\<close>, the size of the rounding error of a \<^verbatim>\<open>double\<close>. The second
  is what tolerance exponents below \<open>-323\<close> meet: \<^verbatim>\<open>pow\<close> underflows to zero, whose logarithm is
  \<open>-\<infinity>\<close>, and the conversion to \<^verbatim>\<open>int\<close> gives \<open>-2^31\<close>.
\<close>

definition rounds_down :: arith where
  "rounds_down = exact\<lparr>d_mul := (\<lambda>x y. x * y * (1 - 1 / 2 ^ 53))\<rparr>"

definition underflow :: arith where
  "underflow = \<lparr>d_pow10 = (\<lambda>k. 0), d_mul = (\<lambda>x y. x * y), d_order = (\<lambda>e. - 2147483648)\<rparr>"

subsection \<open>Notions used in the properties\<close>

text \<open>
  \<open>frame n s s'\<close>: from \<open>s\<close> to \<open>s'\<close> the tables keep their lengths, and only row \<open>n\<close> of
  \<open>u\<close> and row \<open>n + 1\<close> of \<open>x\<close> may differ.
\<close>

definition frame :: "nat \<Rightarrow> tabs \<Rightarrow> tabs \<Rightarrow> bool" where
  "frame n s s' \<longleftrightarrow>
     length (fst s') = length (fst s) \<and> length (snd s') = length (snd s) \<and>
     (\<forall>j. j \<noteq> n + 1 \<longrightarrow> fst s' ! j = fst s ! j) \<and> (\<forall>j. j \<noteq> n \<longrightarrow> snd s' ! j = snd s ! j)"

declare J2_loop.simps [simp del]

text \<open>
  \<open>never_consumed ... k step b\<close>: from the remaining duration \<open>step\<close> and the state \<open>b\<close>,
  each of the next \<open>k\<close> passes through the loop body takes its step without consuming
  the remaining duration (none throws, none breaks).
\<close>

fun never_consumed ::
  "arith \<Rightarrow> vec3 \<Rightarrow> real \<Rightarrow> real \<Rightarrow> real \<Rightarrow> real \<Rightarrow> real \<Rightarrow> int \<Rightarrow> nat \<Rightarrow> real \<Rightarrow> body \<Rightarrow> bool" where
  "never_consumed ar u mu veff J2RG2 eps_a eps_r max_order 0 step b = True"
| "never_consumed ar u mu veff J2RG2 eps_a eps_r max_order (Suc k) step b =
     (case J2_iteration ar u mu veff J2RG2 eps_a eps_r max_order step b of
        Continue b' h step' \<Rightarrow> never_consumed ar u mu veff J2RG2 eps_a eps_r max_order k step' b'
      | _ \<Rightarrow> False)"

text \<open>The state one tenth of a time unit along the circular orbit, by the series of order 3.\<close>

definition arrival :: body where
  "arrival = \<lparr>r0 = (199 / 200, 599 / 6000, 0), v0 = (- (599 / 6000), 199 / 200, 0), m0 = 1\<rparr>"

text \<open>
  \<open>agree_upto n s s'\<close>: the two pairs of tables hold the same entries at every order up to
  \<open>n\<close> (the 7 entries of a row of \<open>x\<close>, the 34 of a row of \<open>u\<close>); at higher orders they may
  differ. \<open>fits n s\<close>: the tables have the rows the body of order \<open>n\<close> writes.
\<close>

definition agree_upto :: "nat \<Rightarrow> tabs \<Rightarrow> tabs \<Rightarrow> bool" where
  "agree_upto n s s' \<longleftrightarrow>
     (\<forall>j k. j \<le> n \<longrightarrow> k < 7 \<longrightarrow> X s j k = X s' j k) \<and>
     (\<forall>j k. j \<le> n \<longrightarrow> k < 34 \<longrightarrow> U s j k = U s' j k)"

definition fits :: "nat \<Rightarrow> tabs \<Rightarrow> bool" where
  "fits n s \<longleftrightarrow> Suc n < length (fst s) \<and> n < length (snd s)"

text \<open>The relation kept between two runs of the body of order \<open>n\<close>, statement by statement.\<close>

definition lockstep :: "nat \<Rightarrow> nat \<Rightarrow> tabs \<Rightarrow> tabs \<Rightarrow> bool" where
  "lockstep n K s s' \<longleftrightarrow>
     fits n s \<and> fits n s' \<and> agree_upto n s s' \<and> (\<forall>k. k < K \<longrightarrow> X s (Suc n) k = X s' (Suc n) k)"

text \<open>A value that is not negative: a finite one, or \<open>+\<infinity>\<close>.\<close>

definition nonneg_ext :: "ext \<Rightarrow> bool" where
  "nonneg_ext x = (case x of Fin v \<Rightarrow> 0 \<le> v | PInf \<Rightarrow> True | _ \<Rightarrow> False)"

section \<open>Properties\<close>

subsection \<open>Order selection\<close>

lemma d_pow10_exact [simp]: "d_pow10 exact k = 10 powr real_of_int k"
  by (simp add: exact_def)

lemma d_mul_exact [simp]: "d_mul exact x y = x * y"
  by (simp add: exact_def)

lemma d_order_exact [simp]: "d_order exact e = \<lceil>- 0.5 * ln e + 1\<rceil>"
  by (simp add: exact_def)

lemma select_eps_m_exact: "select_eps_m exact ea er xm = (if er * xm < ea then ea else er)"
  by (simp add: select_eps_m_def)

lemma select_order_exact:
  "select_order exact ea er xm = \<lceil>- 0.5 * ln (select_eps_m exact ea er xm) + 1\<rceil>"
  by (simp add: select_order_def)

lemma ln10_gt_1: "1 < ln (10::real)"
proof -
  have "exp (1::real) \<le> 3" by (rule exp_le)
  then have "exp (1::real) < 10" by simp
  then have "ln (exp (1::real)) < ln 10" by (subst ln_less_cancel_iff) simp_all
  then show ?thesis by simp
qed

lemma ln_pow10: "ln (10 powr real_of_int k) = real_of_int k * ln (10::real)"
  by (simp add: ln_powr)

lemma order_antimono:
  assumes "0 < e'" "e' \<le> e"
  shows "\<lceil>- 0.5 * ln e + 1\<rceil> \<le> \<lceil>- 0.5 * ln e' + (1::real)\<rceil>"
proof -
  have "ln e' \<le> ln e" using assms by simp
  then have "- 0.5 * ln e + 1 \<le> - 0.5 * ln e' + (1::real)" by simp
  then show ?thesis by (rule ceiling_mono)
qed

lemma eps_m_cases:
  "(eps_r * xm < eps_a \<and> select_eps_m exact eps_a eps_r xm = eps_a) \<or>
   (eps_a \<le> eps_r * xm \<and> select_eps_m exact eps_a eps_r xm = eps_r)"
  by (simp add: select_eps_m_exact not_less)

lemma eps_m_abs_mono:
  assumes "ea' \<le> ea" "1 \<le> xm" "0 < er"
  shows "select_eps_m exact ea' er xm \<le> select_eps_m exact ea er xm"
proof -
  have "er \<le> er * xm" using assms by simp
  with assms(1) eps_m_cases[of er xm ea] eps_m_cases[of er xm ea'] show ?thesis
    by linarith
qed

lemma eps_m_rel_mono:
  assumes "er' \<le> er" "xm \<le> 1" "0 < er'" "0 < ea"
  shows "select_eps_m exact ea er' xm \<le> select_eps_m exact ea er xm"
proof (cases "0 \<le> xm")
  case True
  have "er * xm \<le> er" using assms True by (simp add: mult_left_le)
  moreover have "er' * xm \<le> er * xm" using assms True by (simp add: mult_right_mono)
  ultimately show ?thesis
    using assms(1) eps_m_cases[of er xm ea] eps_m_cases[of er' xm ea] by linarith
next
  case False
  then have "er * xm \<le> 0" "er' * xm \<le> 0" using assms
    by (simp_all add: mult_nonneg_nonpos)
  then have "er * xm < ea" "er' * xm < ea" using assms(4) by linarith+
  then show ?thesis by (simp add: select_eps_m_exact)
qed

lemma eps_m_pos: "0 < ea \<Longrightarrow> 0 < er \<Longrightarrow> 0 < select_eps_m exact ea er xm"
  by (simp add: select_eps_m_exact)

text \<open>
  Claim C8, as amended. For a fixed state norm \<open>xm\<close>, lowering the absolute tolerance
  exponent never lowers the selected order when \<open>xm \<ge> 1\<close>, and lowering the relative
  tolerance exponent never lowers it when \<open>xm \<le> 1\<close>. (Outside these ranges the regime
  test \<open>eps_r * xm < eps_a\<close> can switch to the looser of the two tolerances, as the
  counterexample below shows.) The orders are those of the formula
  \<open>\<lceil>-0.5 ln eps_m + 1\<rceil>\<close>, in the arithmetic that does not round; the last lemma of this
  section has the same for every arithmetic that rounds monotonically.
\<close>

theorem order_monotone_in_each_tolerance:
  "(a' \<le> a \<and> 1 \<le> xm \<longrightarrow>
      select_order exact (10 powr real_of_int a) (10 powr real_of_int r) xm
        \<le> select_order exact (10 powr real_of_int a') (10 powr real_of_int r) xm) \<and>
   (r' \<le> r \<and> xm \<le> 1 \<longrightarrow>
      select_order exact (10 powr real_of_int a) (10 powr real_of_int r) xm
        \<le> select_order exact (10 powr real_of_int a) (10 powr real_of_int r') xm)"
proof (intro conjI impI)
  assume h: "a' \<le> a \<and> 1 \<le> xm"
  have "select_eps_m exact (10 powr real_of_int a') (10 powr real_of_int r) xm
          \<le> select_eps_m exact (10 powr real_of_int a) (10 powr real_of_int r) xm"
    using h by (intro eps_m_abs_mono powr_mono) simp_all
  then show "select_order exact (10 powr real_of_int a) (10 powr real_of_int r) xm
        \<le> select_order exact (10 powr real_of_int a') (10 powr real_of_int r) xm"
    unfolding select_order_exact by (intro order_antimono eps_m_pos) simp_all
next
  assume h: "r' \<le> r \<and> xm \<le> 1"
  have "select_eps_m exact (10 powr real_of_int a) (10 powr real_of_int r') xm
          \<le> select_eps_m exact (10 powr real_of_int a) (10 powr real_of_int r) xm"
    using h by (intro eps_m_rel_mono powr_mono) simp_all
  then show "select_order exact (10 powr real_of_int a) (10 powr real_of_int r) xm
        \<le> select_order exact (10 powr real_of_int a) (10 powr real_of_int r') xm"
    unfolding select_order_exact by (intro order_antimono eps_m_pos) simp_all
qed

theorem order_monotone_witness:
  "select_order exact (10 powr real_of_int (- 10)) (10 powr real_of_int (- 10)) 1
      \<le> select_order exact (10 powr real_of_int (- 12)) (10 powr real_of_int (- 10)) 1 \<and>
   select_order exact (10 powr real_of_int (- 10)) (10 powr real_of_int (- 10)) 1
      \<le> select_order exact (10 powr real_of_int (- 10)) (10 powr real_of_int (- 12)) 1"
  using order_monotone_in_each_tolerance [of "- 12" "- 10" 1 "- 10" "- 12"] by simp

lemma pow10_m7: "10 powr real_of_int (- 10) * 1000 = 10 powr real_of_int (- 7)"
proof -
  have "(1000::real) = 10 powr 3" by simp
  then have "10 powr real_of_int (- 10) * (1000::real) = 10 powr (real_of_int (- 10) + 3)"
    by (simp only: powr_add)
  then show ?thesis by simp
qed

lemma pow10_m9: "10 powr real_of_int (- 12) * 1000 = 10 powr real_of_int (- 9)"
proof -
  have "(1000::real) = 10 powr 3" by simp
  then have "10 powr real_of_int (- 12) * (1000::real) = 10 powr (real_of_int (- 12) + 3)"
    by (simp only: powr_add)
  then show ?thesis by simp
qed

text \<open>
  Claim C8 as stated fails. With \<open>xm = 1000\<close> and absolute tolerance \<open>10^-8\<close>, tightening
  the relative tolerance from \<open>10^-10\<close> to \<open>10^-12\<close> moves the regime test from the
  relative to the absolute tolerance, and the order drops from
  \<open>\<lceil>5 ln 10 + 1\<rceil>\<close> to \<open>\<lceil>4 ln 10 + 1\<rceil>\<close>.
\<close>

theorem tighter_relative_tolerance_lowers_order:
  "select_order exact (10 powr real_of_int (- 8)) (10 powr real_of_int (- 12)) 1000
     < select_order exact (10 powr real_of_int (- 8)) (10 powr real_of_int (- 10)) 1000"
proof -
  have "\<not> (10 powr real_of_int (- 7) < (10::real) powr real_of_int (- 8))" by simp
  then have A: "select_order exact (10 powr real_of_int (- 8)) (10 powr real_of_int (- 10)) 1000
        = \<lceil>- 0.5 * (real_of_int (- 10) * ln 10) + (1::real)\<rceil>"
    unfolding select_order_exact select_eps_m_exact pow10_m7 by (simp only: ln_pow10 if_False)
  have "10 powr real_of_int (- 9) < (10::real) powr real_of_int (- 8)" by simp
  then have B: "select_order exact (10 powr real_of_int (- 8)) (10 powr real_of_int (- 12)) 1000
        = \<lceil>- 0.5 * (real_of_int (- 8) * ln 10) + (1::real)\<rceil>"
    unfolding select_order_exact select_eps_m_exact pow10_m9 by (simp only: ln_pow10 if_True)
  have "- 0.5 * (real_of_int (- 8) * ln 10) + (1::real) + 1 \<le> - 0.5 * (real_of_int (- 10) * ln 10) + 1"
    using ln10_gt_1 by simp
  then have "\<lceil>- 0.5 * (real_of_int (- 8) * ln 10) + (1::real)\<rceil> + 1
               \<le> \<lceil>- 0.5 * (real_of_int (- 10) * ln 10) + (1::real)\<rceil>"
    by (metis ceiling_mono ceiling_add_one)
  then show ?thesis unfolding A B by linarith
qed

text \<open>
  The amended claim C8 in any arithmetic that rounds monotonically: one whose order does
  not grow with the target error, and whose product by a factor of at least 1 is not
  below, by a factor between 0 and 1 not above, what is multiplied.
\<close>

lemma order_monotone_rounded:
  assumes o: "\<And>e e'. 0 < e' \<Longrightarrow> e' \<le> e \<Longrightarrow> d_order ar e \<le> d_order ar e'"
    and ge: "\<And>e x. 0 \<le> e \<Longrightarrow> 1 \<le> x \<Longrightarrow> e \<le> d_mul ar e x"
    and le: "\<And>e x. 0 \<le> e \<Longrightarrow> 0 \<le> x \<Longrightarrow> x \<le> 1 \<Longrightarrow> d_mul ar e x \<le> e"
    and mono: "\<And>e e' x. e' \<le> e \<Longrightarrow> 0 \<le> x \<Longrightarrow> d_mul ar e' x \<le> d_mul ar e x"
  shows "0 < ea' \<Longrightarrow> ea' \<le> ea \<Longrightarrow> 0 < er \<Longrightarrow> 1 \<le> xm \<Longrightarrow>
           select_order ar ea er xm \<le> select_order ar ea' er xm"
    and "0 < ea \<Longrightarrow> 0 < er' \<Longrightarrow> er' \<le> er \<Longrightarrow> 0 \<le> xm \<Longrightarrow> xm \<le> 1 \<Longrightarrow>
           select_order ar ea er xm \<le> select_order ar ea er' xm"
proof -
  assume h: "0 < ea'" "ea' \<le> ea" "0 < er" "1 \<le> xm"
  have g: "er \<le> d_mul ar er xm" using ge [of er xm] h by simp
  have "0 < select_eps_m ar ea' er xm \<and> select_eps_m ar ea' er xm \<le> select_eps_m ar ea er xm"
    unfolding select_eps_m_def using h g by auto
  then show "select_order ar ea er xm \<le> select_order ar ea' er xm"
    unfolding select_order_def using o by blast
next
  assume h: "0 < ea" "0 < er'" "er' \<le> er" "0 \<le> xm" "xm \<le> 1"
  have g: "d_mul ar er xm \<le> er" using le [of er xm] h by simp
  have m: "d_mul ar er' xm \<le> d_mul ar er xm" using mono [of er' er xm] h by simp
  have "0 < select_eps_m ar ea er' xm \<and> select_eps_m ar ea er' xm \<le> select_eps_m ar ea er xm"
    unfolding select_eps_m_def using h g m by auto
  then show "select_order ar ea er xm \<le> select_order ar ea er' xm"
    unfolding select_order_def using o by blast
qed

subsection \<open>Tables and statements\<close>

lemma length_wr [simp]: "length (wr t n k v) = length t"
  by (simp add: wr_def)

lemma length_assign_table [simp]: "length (assign_table m) = m"
  by (simp add: assign_table_def)

lemma rd_wr: "n < length t \<Longrightarrow> rd (wr t n k v) n' k' = (if n' = n \<and> k' = k then v else rd t n' k')"
  by (auto simp: rd_def wr_def nth_list_update)

lemma nth_wr_other: "n' \<noteq> n \<Longrightarrow> wr t n k v ! n' = t ! n'"
  by (simp add: wr_def)

lemma rd_wr_other_row: "n' \<noteq> n \<Longrightarrow> rd (wr t n k v) n' k' = rd t n' k'"
  by (simp add: rd_def nth_wr_other)

lemma seq_Nil [simp]: "seq [] s = s"
  by (simp add: seq_def)

lemma seq_Cons [simp]: "seq (f # fs) s = seq fs (f s)"
  by (simp add: seq_def)

lemma seq_append [simp]: "seq (fs @ gs) s = seq gs (seq fs s)"
  by (simp add: seq_def)

lemma add_u_Nil [simp]: "add_u n k [] t s = s"
  by (simp add: add_u_def)

lemma add_u_Cons [simp]:
  "add_u n k (j # js) t s = add_u n k js t (set_u n k (\<lambda>s. rd (snd s) n k + t j s) s)"
  by (simp add: add_u_def)

lemma seq_preserves:
  assumes "\<And>f s. f \<in> set fs \<Longrightarrow> P s \<Longrightarrow> P (f s)" and "P s"
  shows "P (seq fs s)"
  using assms by (induction fs arbitrary: s) auto

lemma add_u_preserves:
  assumes "\<And>e s. P s \<Longrightarrow> P (set_u n k e s)" and "P s"
  shows "P (add_u n k js t s)"
  using assms(2)
proof (induction js arbitrary: s)
  case Nil
  then show ?case by simp
next
  case (Cons j js)
  show ?case using Cons.IH [OF assms(1) [OF Cons.prems]] by simp
qed

lemma frame_refl: "frame n s s"
  by (simp add: frame_def)

lemma frame_set_u: "frame n s0 s \<Longrightarrow> frame n s0 (set_u n k e s)"
  by (simp add: frame_def set_u_def nth_wr_other)

lemma frame_set_x: "frame n s0 s \<Longrightarrow> frame n s0 (set_x (Suc n) k e s)"
  by (simp add: frame_def set_x_def nth_wr_other)

lemma frame_add_u: "frame n s0 s \<Longrightarrow> frame n s0 (add_u n k js t s)"
  by (rule add_u_preserves) (auto intro: frame_set_u)

lemma frame_order_body: "frame n s (order_body thrust mu veff J2RG2 n s)"
  unfolding order_body_def
  apply (rule seq_preserves[where P = "frame n s"])
   apply (auto simp: stmts_geometry_def stmts_kepler_def stmts_J2_def stmts_update_def
        intro: frame_set_u frame_set_x frame_add_u frame_refl split: if_splits)
  done


lemma frame_trans: "frame n s0 s1 \<Longrightarrow> frame n s1 s2 \<Longrightarrow> frame n s0 s2"
  by (simp add: frame_def)

lemma order_body_length:
  "length (fst (order_body thrust mu veff J2RG2 n s)) = length (fst s)"
  "length (snd (order_body thrust mu veff J2RG2 n s)) = length (snd s)"
  using frame_order_body [of n s thrust mu veff J2RG2] by (simp_all add: frame_def)

lemma order_body_x_other:
  "j \<noteq> Suc n \<Longrightarrow> fst (order_body thrust mu veff J2RG2 n s) ! j = fst s ! j"
  using frame_order_body [of n s thrust mu veff J2RG2] by (simp add: frame_def)

lemma order_body_u_other:
  "j \<noteq> n \<Longrightarrow> snd (order_body thrust mu veff J2RG2 n s) ! j = snd s ! j"
  using frame_order_body [of n s thrust mu veff J2RG2] by (simp add: frame_def)

lemma frame_seq:
  assumes "\<And>f s'. f \<in> set fs \<Longrightarrow> frame n s s' \<Longrightarrow> frame n s (f s')"
  shows "frame n s (seq fs s)"
  by (rule seq_preserves [where P = "frame n s"]) (auto intro: assms frame_refl)

lemma frame_body_prefix:
  "frame n s (seq (stmts_geometry n @ stmts_kepler mu n @ stmts_J2 J2RG2 n) s)"
  by (rule frame_seq)
     (auto simp: stmts_geometry_def stmts_kepler_def stmts_J2_def
        intro: frame_set_u frame_add_u split: if_splits)

lemma order_body_mass:
  assumes "Suc n < length (fst s)"
  shows "X (order_body thrust mu veff J2RG2 n s) (Suc n) 6 = (if n = 0 then - sqrtT thrust / veff else 0)"
proof -
  define s3 where "s3 = seq (stmts_geometry n @ stmts_kepler mu n @ stmts_J2 J2RG2 n) s"
  have len: "Suc n < length (fst s3)"
    using frame_body_prefix [of n s mu J2RG2] assms by (simp add: s3_def frame_def)
  have "order_body thrust mu veff J2RG2 n s = seq (stmts_update thrust veff n) s3"
    by (simp add: order_body_def s3_def)
  then show ?thesis using len
    by (simp add: stmts_update_def set_x_def set_u_def rd_wr)
qed

lemma coeff_while_length:
  "length (fst (coeff_while thrust mu veff J2RG2 order n s)) = length (fst s)"
  by (induction thrust mu veff J2RG2 order n s rule: coeff_while.induct)
     (simp add: order_body_length)

lemma coeff_while_x_low:
  "j \<le> n \<Longrightarrow> fst (coeff_while thrust mu veff J2RG2 order n s) ! j = fst s ! j"
proof (induction thrust mu veff J2RG2 order n s rule: coeff_while.induct)
  case (1 thrust mu veff J2RG2 order n s)
  show ?case
  proof (cases "n < order")
    case True
    then show ?thesis using 1 by (simp add: order_body_x_other)
  next
    case False
    then show ?thesis by simp
  qed
qed

lemma coeff_while_mass:
  assumes "order < length (fst s)" "n < k" "k \<le> order"
  shows "X (coeff_while thrust mu veff J2RG2 order n s) k 6 = (if k = 1 then - sqrtT thrust / veff else 0)"
  using assms
proof (induction thrust mu veff J2RG2 order n s rule: coeff_while.induct)
  case (1 thrust mu veff J2RG2 order n s)
  have lt: "n < order" using 1 by simp
  let ?s1 = "order_body thrust mu veff J2RG2 n s"
  have unf: "coeff_while thrust mu veff J2RG2 order n s = coeff_while thrust mu veff J2RG2 order (Suc n) ?s1"
    using lt by simp
  show ?case
  proof (cases "k = Suc n")
    case True
    have "Suc n < length (fst s)" using 1 lt by simp
    then have "X ?s1 (Suc n) 6 = (if n = 0 then - sqrtT thrust / veff else 0)"
      by (rule order_body_mass)
    moreover have "fst (coeff_while thrust mu veff J2RG2 order (Suc n) ?s1) ! Suc n = fst ?s1 ! Suc n"
      by (rule coeff_while_x_low) simp
    ultimately show ?thesis using True unf by (simp add: rd_def)
  next
    case False
    then have "Suc n < k" using 1 by simp
    moreover have "order < length (fst ?s1)" using 1 by (simp add: order_body_length)
    ultimately show ?thesis using 1(1) [OF lt] 1(4) unf by simp
  qed
qed

lemma init_x_length: "length (fst (seq (init_x b) s)) = length (fst s)"
  by (simp add: init_x_def set_x_def)

lemma taylor_mass:
  assumes "order < length (fst s)" "1 \<le> k" "k \<le> order"
  shows "X (taylor_coefficients b order thrust mu veff J2RG2 s) k 6
           = (if k = 1 then - sqrtT thrust / veff else 0)"
  unfolding taylor_coefficients_def using assms
  by (intro coeff_while_mass) (simp_all add: init_x_length)

text \<open>
  Claim C4. For every order \<open>N \<ge> 1\<close>, after the generator has run on tables of
  \<open>N + 1\<close> and \<open>N\<close> rows, the mass coefficient of order 1 is minus the Euclidean norm of
  the thrust divided by \<open>veff\<close>, and the mass coefficients of orders \<open>2, ..., N\<close> are zero.
\<close>

theorem mass_coefficients:
  assumes "1 \<le> N" and "N + 1 \<le> length (fst s)" and "N \<le> length (snd s)"
  shows "X (taylor_coefficients b N thrust mu veff J2RG2 s) 1 6
           = - sqrt (ix0 thrust * ix0 thrust + ix1 thrust * ix1 thrust + ix2 thrust * ix2 thrust) / veff \<and>
         (\<forall>k. 2 \<le> k \<and> k \<le> N \<longrightarrow> X (taylor_coefficients b N thrust mu veff J2RG2 s) k 6 = 0)"
proof -
  have "N < length (fst s)" using assms(2) by simp
  then show ?thesis using assms(1) by (simp add: taylor_mass sqrtT_def)
qed

theorem mass_coefficients_witness:
  "X (taylor_coefficients circular_orbit 2 (1, 0, 0) 1 1 0 (assign_table 3, assign_table 2)) 1 6 = - 1 \<and>
   X (taylor_coefficients circular_orbit 2 (1, 0, 0) 1 1 0 (assign_table 3, assign_table 2)) 2 6 = 0"
  using mass_coefficients [of 2 "(assign_table 3, assign_table 2)" circular_orbit "(1, 0, 0)" 1 1 0]
  by (simp add: assign_table_def ix0_def ix1_def ix2_def)

subsection \<open>Causality of the recurrence\<close>

lemma seq_lockstep:
  assumes "\<And>f s s'. f \<in> set fs \<Longrightarrow> R s s' \<Longrightarrow> R (f s) (f s')" and "R s s'"
  shows "R (seq fs s) (seq fs s')"
  using assms by (induction fs arbitrary: s s') auto

lemma lockstep_set_u:
  assumes "lockstep n K s s'" and "\<And>s s'. agree_upto n s s' \<Longrightarrow> e s = e s'"
  shows "lockstep n K (set_u n k e s) (set_u n k e s')"
proof -
  have a: "agree_upto n s s'" and l: "n < length (snd s)" "n < length (snd s')"
    using assms(1) by (simp_all add: lockstep_def fits_def)
  have e: "e s = e s'" using assms(2) a .
  show ?thesis
    using assms(1) unfolding lockstep_def fits_def agree_upto_def set_u_def
    by (simp add: rd_wr l e)
qed

lemma lockstep_add_u:
  assumes "lockstep n K s s'" and "k < 34"
    and "\<And>j s s'. j \<in> set js \<Longrightarrow> agree_upto n s s' \<Longrightarrow> t j s = t j s'"
  shows "lockstep n K (add_u n k js t s) (add_u n k js t s')"
  using assms(1,3)
proof (induction js arbitrary: s s')
  case Nil
  then show ?case by simp
next
  case (Cons j js)
  have "lockstep n K (set_u n k (\<lambda>s. U s n k + t j s) s) (set_u n k (\<lambda>s. U s n k + t j s) s')"
  proof (rule lockstep_set_u [OF Cons.prems(1)])
    fix s s' :: tabs
    assume a: "agree_upto n s s'"
    then have "U s n k = U s' n k" using assms(2) by (simp add: agree_upto_def)
    moreover have "t j s = t j s'" using Cons.prems(2) a by simp
    ultimately show "U s n k + t j s = U s' n k + t j s'" by simp
  qed
  then show ?case using Cons.IH Cons.prems(2) by simp
qed

lemma lockstep_set_x:
  assumes "lockstep n K s s'" and "\<And>s s'. agree_upto n s s' \<Longrightarrow> e s = e s'"
  shows "lockstep n (Suc K) (set_x (Suc n) K e s) (set_x (Suc n) K e s')"
proof -
  have a: "agree_upto n s s'" and l: "Suc n < length (fst s)" "Suc n < length (fst s')"
    using assms(1) by (simp_all add: lockstep_def fits_def)
  have e: "e s = e s'" using assms(2) a .
  show ?thesis
    using assms(1) unfolding lockstep_def fits_def agree_upto_def set_x_def
    by (simp add: rd_wr l e less_Suc_eq)
qed

lemma agree_U: "agree_upto n s s' \<Longrightarrow> j \<le> n \<Longrightarrow> k < 34 \<Longrightarrow> U s j k = U s' j k"
  by (simp add: agree_upto_def)

lemma agree_X: "agree_upto n s s' \<Longrightarrow> j \<le> n \<Longrightarrow> k < 7 \<Longrightarrow> X s j k = X s' j k"
  by (simp add: agree_upto_def)

lemma lockstep_geometry:
  assumes "f \<in> set (stmts_geometry n)" "lockstep n 0 s s'"
  shows "lockstep n 0 (f s) (f s')"
  using assms unfolding stmts_geometry_def
  by (auto intro!: lockstep_set_u lockstep_add_u simp: agree_upto_def)


lemma lockstep_kepler:
  assumes "f \<in> set (stmts_kepler mu n)" "lockstep n 0 s s'"
  shows "lockstep n 0 (f s) (f s')"
  using assms unfolding stmts_kepler_def
  by (auto intro!: lockstep_set_u lockstep_add_u simp: agree_upto_def split: if_splits)

lemma lockstep_J2:
  assumes "f \<in> set (stmts_J2 J2RG2 n)" "lockstep n 0 s s'"
  shows "lockstep n 0 (f s) (f s')"
  using assms unfolding stmts_J2_def
  by (auto intro!: lockstep_set_u lockstep_add_u simp: agree_upto_def split: if_splits)

lemma lockstep_set_x_next:
  assumes "lockstep n k s s'" and "\<And>s s'. agree_upto n s s' \<Longrightarrow> e s = e s'" and "K = Suc k"
  shows "lockstep n K (set_x (n + 1) k e s) (set_x (n + 1) k e s')"
  using lockstep_set_x [OF assms(1,2)] assms(3) by simp

lemma lockstep_update:
  assumes "lockstep n 0 s s'"
  shows "lockstep n 7 (seq (stmts_update thrust veff n) s) (seq (stmts_update thrust veff n) s')"
proof -
  have r: "\<And>k s s'. k < 34 \<Longrightarrow> agree_upto n s s' \<Longrightarrow> U s n k = U s' n k"
    by (simp add: agree_upto_def)
  note u = lockstep_set_u and x = lockstep_set_x_next
  show ?thesis
    unfolding stmts_update_def seq_Cons seq_Nil
    apply (rule x [where k = 6], rule x [where k = 5], rule x [where k = 4], rule x [where k = 3],
        rule x [where k = 2], rule x [where k = 1], rule x [where k = 0], rule u, rule u, rule u,
        rule assms)
    apply (simp_all add: r)
    done
qed

text \<open>
  Claim C7. In the pass of order \<open>n\<close> of the generator (for every \<open>n < N\<close>, the tables having
  \<open>N + 1\<close> and \<open>N\<close> rows), the 34 entries of \<open>u[n]\<close> and the 7 entries of \<open>x[n + 1]\<close> that the
  pass computes depend only on the entries of \<open>x\<close> and \<open>u\<close> at orders \<open>j \<le> n\<close>: two pairs of
  tables that agree up to order \<open>n\<close>, whatever they hold at higher orders, give the same
  \<open>u[n]\<close> and \<open>x[n + 1]\<close>.
\<close>

theorem recurrence_causality:
  assumes "n < N"
    and "length (fst s) = N + 1" and "length (snd s) = N"
    and "length (fst s') = N + 1" and "length (snd s') = N"
    and "agree_upto n s s'"
  shows "(\<forall>k. k < 34 \<longrightarrow>
            U (order_body thrust mu veff J2RG2 n s) n k = U (order_body thrust mu veff J2RG2 n s') n k) \<and>
         (\<forall>k. k < 7 \<longrightarrow>
            X (order_body thrust mu veff J2RG2 n s) (n + 1) k = X (order_body thrust mu veff J2RG2 n s') (n + 1) k)"
proof -
  have l0: "lockstep n 0 s s'" using assms by (simp add: lockstep_def fits_def)
  have 1: "lockstep n 0 (seq (stmts_geometry n) s) (seq (stmts_geometry n) s')"
  proof (rule seq_lockstep [where R = "lockstep n 0"])
    show "lockstep n 0 s s'" by (rule l0)
  qed (rule lockstep_geometry)
  have 2: "lockstep n 0 (seq (stmts_kepler mu n) (seq (stmts_geometry n) s))
                        (seq (stmts_kepler mu n) (seq (stmts_geometry n) s'))"
  proof (rule seq_lockstep [where R = "lockstep n 0"])
    show "lockstep n 0 (seq (stmts_geometry n) s) (seq (stmts_geometry n) s')" by (rule 1)
  qed (rule lockstep_kepler)
  have "lockstep n 0 (seq (stmts_J2 J2RG2 n) (seq (stmts_kepler mu n) (seq (stmts_geometry n) s)))
                          (seq (stmts_J2 J2RG2 n) (seq (stmts_kepler mu n) (seq (stmts_geometry n) s')))"
  proof (rule seq_lockstep [where R = "lockstep n 0"])
    show "lockstep n 0 (seq (stmts_kepler mu n) (seq (stmts_geometry n) s))
                        (seq (stmts_kepler mu n) (seq (stmts_geometry n) s'))" by (rule 2)
  qed (rule lockstep_J2)
  then have "lockstep n 7 (order_body thrust mu veff J2RG2 n s) (order_body thrust mu veff J2RG2 n s')"
    unfolding order_body_def seq_append by (rule lockstep_update)
  then show ?thesis by (simp add: lockstep_def agree_upto_def)
qed

theorem recurrence_causality_witness:
  "U (order_body (0, 0, 0) 1 1 0 1 (assign_table 4, assign_table 3)) 1 11 =
     U (order_body (0, 0, 0) 1 1 0 1 (wr (assign_table 4) 3 0 5, wr (assign_table 3) 2 7 9)) 1 11 \<and>
   X (order_body (0, 0, 0) 1 1 0 1 (assign_table 4, assign_table 3)) 2 3 =
     X (order_body (0, 0, 0) 1 1 0 1 (wr (assign_table 4) 3 0 5, wr (assign_table 3) 2 7 9)) 2 3"
proof -
  have a: "agree_upto 1 (assign_table 4, assign_table 3) (wr (assign_table 4) 3 0 5, wr (assign_table 3) 2 7 9)"
    by (simp add: agree_upto_def rd_wr_other_row)
  note t = recurrence_causality [where s = "(assign_table 4, assign_table 3)"
      and s' = "(wr (assign_table 4) 3 0 5, wr (assign_table 3) 2 7 9)" and n = 1 and N = 3
      and thrust = "(0, 0, 0)" and mu = 1 and veff = 1 and ?J2RG2.0 = 0, OF _ _ _ _ _ a]
  have t': "(\<forall>k. k < 34 \<longrightarrow>
            U (order_body (0, 0, 0) 1 1 0 1 (assign_table 4, assign_table 3)) 1 k =
            U (order_body (0, 0, 0) 1 1 0 1 (wr (assign_table 4) 3 0 5, wr (assign_table 3) 2 7 9)) 1 k) \<and>
         (\<forall>k. k < 7 \<longrightarrow>
            X (order_body (0, 0, 0) 1 1 0 1 (assign_table 4, assign_table 3)) (1 + 1) k =
            X (order_body (0, 0, 0) 1 1 0 1 (wr (assign_table 4) 3 0 5, wr (assign_table 3) 2 7 9)) (1 + 1) k)"
    by (rule t) simp_all
  show ?thesis using t' [THEN conjunct1, rule_format, of 11] t' [THEN conjunct2, rule_format, of 3]
    by (simp add: numeral_2_eq_2)
qed

subsection \<open>One step\<close>



lemma norm_inf_nonneg: "0 \<le> norm_inf c"
  unfolding norm_inf_def by (rule order_trans [OF abs_ge_zero max.cobounded2])

lemma nonneg_ext_simps [simp]:
  "nonneg_ext (Fin v) = (0 \<le> v)" "nonneg_ext PInf" "\<not> nonneg_ext MInf" "\<not> nonneg_ext NaN"
  by (simp_all add: nonneg_ext_def)

lemma ext_div_pos: "0 < a \<Longrightarrow> 0 \<le> b \<Longrightarrow> nonneg_ext (ext_div a b)"
  by (simp add: ext_div_def)

lemma ext_div_nonneg: "0 \<le> a \<Longrightarrow> 0 \<le> b \<Longrightarrow> ext_div a b = NaN \<or> nonneg_ext (ext_div a b)"
  by (simp add: ext_div_def)

lemma pow_inv_nonneg: "nonneg_ext x \<Longrightarrow> nonneg_ext (pow_inv x k)"
  by (cases x) (simp_all add: pow_inv_def)

lemma pow_inv_NaN [simp]: "pow_inv NaN k = NaN"
  by (simp add: pow_inv_def)

lemma ext_min_nonneg: "nonneg_ext a \<Longrightarrow> nonneg_ext b \<Longrightarrow> nonneg_ext (ext_min a b)"
  by (simp add: ext_min_def)

lemma ext_min_NaN [simp]: "ext_min NaN b = NaN"
  by (simp add: ext_min_def)

lemma ext_min_Fin [simp]: "ext_min (Fin a) (Fin b) = Fin (min a b)"
  by (simp add: ext_min_def min_def)

lemma ext_min_nonneg_NaN:
  "a = NaN \<or> nonneg_ext a \<Longrightarrow> b = NaN \<or> nonneg_ext b \<Longrightarrow> ext_min a b = NaN \<or> nonneg_ext (ext_min a b)"
  by (auto simp: ext_min_def)

lemma ext_over_nonneg: "0 < c \<Longrightarrow> nonneg_ext x \<Longrightarrow> nonneg_ext (ext_over x c)"
  by (cases x) simp_all

text \<open>With a positive \<open>xm\<close> the candidate step is a number, finite or infinite.\<close>

lemma rho_m_nonneg:
  assumes "0 < xm" "0 \<le> xm_n" "0 \<le> xm_n1"
  shows "nonneg_ext (rho_m ar eps_a eps_r xm xm_n xm_n1 n)"
  unfolding rho_m_def using assms by (simp add: ext_min_nonneg pow_inv_nonneg ext_div_pos)

lemma candidate_step_nonneg:
  assumes "0 < xm" "0 \<le> xm_n" "0 \<le> xm_n1"
  shows "nonneg_ext (candidate_step ar eps_a eps_r xm xm_n xm_n1 n)"
  unfolding candidate_step_def by (intro ext_over_nonneg rho_m_nonneg assms) simp

text \<open>With \<open>xm = 0\<close> it may be \<^verbatim>\<open>0. / 0.\<close>; it is never negative.\<close>

lemma rho_m_nonneg_NaN:
  assumes "0 \<le> xm" "0 \<le> xm_n" "0 \<le> xm_n1"
  shows "rho_m ar eps_a eps_r xm xm_n xm_n1 n = NaN \<or> nonneg_ext (rho_m ar eps_a eps_r xm xm_n xm_n1 n)"
proof -
  have d: "ext_div xm c = NaN \<or> nonneg_ext (ext_div xm c)" "nonneg_ext (ext_div 1 c)" if "0 \<le> c" for c
    using that assms(1) by (simp_all add: ext_div_nonneg ext_div_pos)
  have p: "pow_inv x k = NaN \<or> nonneg_ext (pow_inv x k)" if "x = NaN \<or> nonneg_ext x" for x k
    using that pow_inv_nonneg by auto
  show ?thesis
    unfolding rho_m_def using assms(2,3)
    by (simp add: ext_min_nonneg_NaN p d ext_min_nonneg pow_inv_nonneg)
qed

lemma candidate_step_nonneg_NaN:
  assumes "0 \<le> xm" "0 \<le> xm_n" "0 \<le> xm_n1"
  shows "candidate_step ar eps_a eps_r xm xm_n xm_n1 n = NaN \<or>
         nonneg_ext (candidate_step ar eps_a eps_r xm xm_n xm_n1 n)"
proof -
  have "0 < exp (1::real) * exp 1" by simp
  then show ?thesis
    unfolding candidate_step_def using rho_m_nonneg_NaN [OF assms, of ar eps_a eps_r n]
    by (cases "rho_m ar eps_a eps_r xm xm_n xm_n1 n") simp_all
qed



text \<open>
  At order 1 the second term is \<^verbatim>\<open>pow(., +inf)\<close>: in the absolute regime, with a state of
  norm \<open>xm_n1 > 1\<close>, it is zero, and so is the candidate step.
\<close>

lemma rho_m_order_1:
  assumes "d_mul ar eps_r xm < eps_a" "0 < xm_n" "1 < xm_n1"
  shows "rho_m ar eps_a eps_r xm xm_n xm_n1 1 = Fin 0"
  unfolding rho_m_def ext_div_def pow_inv_def using assms by simp

lemma clamp_step_Fin:
  "0 \<le> c \<Longrightarrow> clamp_step h (Fin c) = Fin (if \<bar>h\<bar> < c then h else if h < 0 then - c else c)"
  by (simp add: clamp_step_def Let_def)

lemma clamp_step_long: "0 \<le> c \<Longrightarrow> \<bar>h\<bar> < c \<Longrightarrow> clamp_step h (Fin c) = Fin h"
  by (simp add: clamp_step_Fin)

lemma clamp_step_short: "0 \<le> c \<Longrightarrow> c \<le> \<bar>h\<bar> \<Longrightarrow> 0 < h \<Longrightarrow> clamp_step h (Fin c) = Fin c"
  by (simp add: clamp_step_Fin)

lemma clamp_step_PInf [simp]: "clamp_step h PInf = Fin h"
  by (simp add: clamp_step_def Let_def)

lemma clamp_step_NaN [simp]: "clamp_step h NaN = NaN"
  by (simp add: clamp_step_def Let_def)

lemma clamp_step_defined: "nonneg_ext c \<Longrightarrow> \<exists>s. clamp_step h c = Fin s"
  by (cases c) (simp_all add: clamp_step_Fin)




lemma clamp_step_zero: "nonneg_ext c \<Longrightarrow> clamp_step 0 c = Fin 0"
  by (cases c) (simp_all add: clamp_step_Fin)

text \<open>What the step function returns when it returns.\<close>

lemma step_Inr:
  assumes "propagate_taylor_J2_step ar b h order thrust mu veff J2RG2 xm eps_a eps_r s = Inr (b', step)"
    and "x = fst (taylor_coefficients b (nat order) thrust mu veff J2RG2 s)"
  shows "1 \<le> order" and "nat order < length (fst s)" and "nat order \<le> length (snd s)"
    and "clamp_step h (candidate_step ar eps_a eps_r xm (norm_inf (x ! nat order))
                  (norm_inf (x ! (nat order - 1))) (nat order)) = Fin step"
    and "m0 b' = m0 b + rd x 1 6 * step"
    and "r0 b' = fst (horner x step (nat order) (r0 b) (v0 b))"
    and "v0 b' = fst (snd (horner x step (nat order) (r0 b) (v0 b)))"
    and "\<not> singular b veff"
proof -
  have g: "\<not> (order < 1 \<or> int (length (fst s)) < order + 1 \<or> int (length (snd s)) < order)"
    using assms(1) by (auto simp: propagate_taylor_J2_step_def)
  show ns: "\<not> singular b veff"
    using assms(1) g by (auto simp: propagate_taylor_J2_step_def split: if_splits)
  show "1 \<le> order" "nat order < length (fst s)" "nat order \<le> length (snd s)"
    using g by auto
  define c where "c = clamp_step h (candidate_step ar eps_a eps_r xm (norm_inf (x ! nat order))
                  (norm_inf (x ! (nat order - 1))) (nat order))"
  have e: "propagate_taylor_J2_step ar b h order thrust mu veff J2RG2 xm eps_a eps_r s =
      (case c of
         Fin step \<Rightarrow>
           Inr (\<lparr>r0 = fst (horner x step (nat order) (r0 b) (v0 b)),
                 v0 = fst (snd (horner x step (nat order) (r0 b) (v0 b))),
                 m0 = m0 b + rd x 1 6 * step\<rparr>, step)
       | _ \<Rightarrow> Inl NotFinite)"
    unfolding propagate_taylor_J2_step_def Let_def c_def assms(2) using g ns by (simp only: if_False)
  have f: "c = Fin step \<and> b' = \<lparr>r0 = fst (horner x step (nat order) (r0 b) (v0 b)),
            v0 = fst (snd (horner x step (nat order) (r0 b) (v0 b))),
            m0 = m0 b + rd x 1 6 * step\<rparr>"
    using assms(1) unfolding e by (cases c) auto
  show "clamp_step h (candidate_step ar eps_a eps_r xm (norm_inf (x ! nat order))
                  (norm_inf (x ! (nat order - 1))) (nat order)) = Fin step"
    using f by (simp add: c_def)
  show "m0 b' = m0 b + rd x 1 6 * step" "r0 b' = fst (horner x step (nat order) (r0 b) (v0 b))"
    "v0 b' = fst (snd (horner x step (nat order) (r0 b) (v0 b)))"
    using f by simp_all
qed

text \<open>
  With the step \<open>c\<close> a number, the step function returns it with the state advanced by it.
\<close>

lemma step_of_clamp:
  assumes "1 \<le> order" "order + 1 \<le> int (length (fst s))" "order \<le> int (length (snd s))"
    and "x = fst (taylor_coefficients b (nat order) thrust mu veff J2RG2 s)"
    and "clamp_step h (candidate_step ar eps_a eps_r xm (norm_inf (x ! nat order))
                  (norm_inf (x ! (nat order - 1))) (nat order)) = Fin c"
    and "\<not> singular b veff"
  shows "propagate_taylor_J2_step ar b h order thrust mu veff J2RG2 xm eps_a eps_r s =
      Inr (\<lparr>r0 = fst (horner x c (nat order) (r0 b) (v0 b)),
            v0 = fst (snd (horner x c (nat order) (r0 b) (v0 b))),
            m0 = m0 b + rd x 1 6 * c\<rparr>, c)"
proof -
  have g: "\<not> (order < 1 \<or> int (length (fst s)) < order + 1 \<or> int (length (snd s)) < order)"
    using assms(1,2,3) by simp
  show ?thesis
    unfolding propagate_taylor_J2_step_def Let_def using g assms(6) assms(5) [unfolded assms(4)]
    by (simp only: if_False assms(4) ext.case)
qed

lemma horner_zero: "foldl (horner_body x 0) (r, v, 0) js = (r, v, 0)"
  by (induction js) (simp_all add: horner_body_def ix0_def ix1_def ix2_def)

text \<open>A step of length zero leaves the state as it was.\<close>

lemma step_still:
  assumes "1 \<le> order" "order + 1 \<le> int (length (fst s))" "order \<le> int (length (snd s))"
    and "x = fst (taylor_coefficients b (nat order) thrust mu veff J2RG2 s)"
    and "clamp_step h (candidate_step ar eps_a eps_r xm (norm_inf (x ! nat order))
                  (norm_inf (x ! (nat order - 1))) (nat order)) = Fin 0"
    and "\<not> singular b veff"
  shows "propagate_taylor_J2_step ar b h order thrust mu veff J2RG2 xm eps_a eps_r s = Inr (b, 0)"
  using step_of_clamp [OF assms] by (simp add: horner_def horner_zero)

lemma step_defined:
  assumes "1 \<le> order" "order + 1 \<le> int (length (fst s))" "order \<le> int (length (snd s))" "0 < xm"
    and "\<not> singular b veff"
  shows "\<exists>b' step. propagate_taylor_J2_step ar b h order thrust mu veff J2RG2 xm eps_a eps_r s = Inr (b', step)"
proof -
  define x where "x = fst (taylor_coefficients b (nat order) thrust mu veff J2RG2 s)"
  obtain c where "clamp_step h (candidate_step ar eps_a eps_r xm (norm_inf (x ! nat order))
                  (norm_inf (x ! (nat order - 1))) (nat order)) = Fin c"
    using clamp_step_defined [OF candidate_step_nonneg [OF assms(4) norm_inf_nonneg norm_inf_nonneg]]
    by blast
  from step_of_clamp [OF assms(1,2,3) x_def this assms(5)] show ?thesis by blast
qed

lemma step_Inl:
  "propagate_taylor_J2_step ar b h order thrust mu veff J2RG2 xm eps_a eps_r s = Inl e
     \<Longrightarrow> e = OutOfBounds \<or> e = NotFinite"
  by (auto simp: propagate_taylor_J2_step_def Let_def split: if_splits ext.splits)

lemma step_mass:
  assumes "propagate_taylor_J2_step ar b h order thrust mu veff J2RG2 xm eps_a eps_r s = Inr (b', step)"
  shows "m0 b' = m0 b - sqrtT thrust / veff * step"
proof -
  define x where "x = fst (taylor_coefficients b (nat order) thrust mu veff J2RG2 s)"
  note r = step_Inr [OF assms x_def]
  have "rd x 1 6 = - sqrtT thrust / veff"
    unfolding x_def using r(1,2) by (subst taylor_mass) simp_all
  then show ?thesis using r(5) by simp
qed


subsection \<open>The coefficients of the circular orbit up to order 3\<close>

lemma set_u_pair: "set_u n k e (x, u) = (x, wr u n k (e (x, u)))"
  by (simp add: set_u_def)

lemma set_x_pair: "set_x n k e (x, u) = (wr x n k (e (x, u)), u)"
  by (simp add: set_x_def)

lemma rd_Cons:
  "rd (r # t) 0 k = r k"
  "rd (r # t) (Suc n) k = rd t n k"
  "rd (r # t) (numeral m) k = rd t (pred_numeral m) k"
  by (simp_all add: rd_def)

lemma wr_Cons:
  "wr (r # t) 0 k v = r(k := v) # t"
  "wr (r # t) (Suc n) k v = r # wr t n k v"
  "wr (r # t) (numeral m) k v = r # wr t (pred_numeral m) k v"
  by (simp_all add: wr_def numeral_eq_Suc)

lemma assign_table_small:
  "assign_table 3 = [\<lambda>k. 0, \<lambda>k. 0, \<lambda>k. 0]"
  "assign_table 4 = [\<lambda>k. 0, \<lambda>k. 0, \<lambda>k. 0, \<lambda>k. 0]"
  by (simp_all add: assign_table_def eval_nat_numeral)

lemma upt_small:
  "[0..<Suc 0] = [0]" "[0..<1] = [0]" "[0..<2] = [0, 1]" "[0..<3] = [0, 1, 2]"
  by (simp_all add: upt_rec)

lemma taylor_coefficients_3:
  "taylor_coefficients b 3 thrust mu veff J2RG2 s =
     order_body thrust mu veff J2RG2 2 (order_body thrust mu veff J2RG2 1
       (order_body thrust mu veff J2RG2 0 (seq (init_x b) s)))"
  by (simp add: taylor_coefficients_def eval_nat_numeral)

lemmas eval_rules = order_body_def stmts_geometry_def stmts_kepler_def stmts_J2_def stmts_update_def
     init_x_def set_u_pair set_x_pair rd_Cons wr_Cons assign_table_small upt_small
     ix0_def ix1_def ix2_def sqrtT_def alpha_def beta_def

lemma circular_orbit_x:
  "fst (taylor_coefficients circular_orbit 3 (0, 0, 0) 1 1 0 (assign_table 4, assign_table 3)) =
     [(\<lambda>k. 0)(0 := 1, Suc 0 := 0, 2 := 0, 3 := 0, 4 := 1, 5 := 0, 6 := 1),
      (\<lambda>k. 0)(0 := 0, Suc 0 := 1, 2 := 0, 3 := - 1, 4 := 0, 5 := 0, 6 := 0),
      (\<lambda>k. 0)(0 := - (1 / 2), Suc 0 := 0, 2 := 0, 3 := 0, 4 := - (1 / 2), 5 := 0, 6 := 0),
      (\<lambda>k. 0)(0 := 0, Suc 0 := - (1 / 6), 2 := 0, 3 := 1 / 6, 4 := 0, 5 := 0, 6 := 0)]"
  unfolding taylor_coefficients_3
  by (simp add: eval_rules circular_orbit_def)

subsection \<open>The stepping loop\<close>

lemma iteration_OrderExceeded:
  "J2_iteration ar u mu veff J2RG2 eps_a eps_r max_order step b = Throw OrderExceeded
     \<longleftrightarrow> max_order < select_order ar eps_a eps_r (state_norm b)"
  by (auto simp: J2_iteration_def Let_def split: sum.splits prod.splits dest: step_Inl)

lemma iteration_Throw:
  "J2_iteration ar u mu veff J2RG2 eps_a eps_r max_order step b = Throw e \<Longrightarrow> e \<noteq> IterationLimitExceeded"
  by (auto simp: J2_iteration_def Let_def split: sum.splits prod.splits if_splits dest: step_Inl)

lemma iteration_LengthError:
  assumes "select_order ar eps_a eps_r (state_norm b) \<le> max_order"
    and "select_order ar eps_a eps_r (state_norm b) < 0"
  shows "J2_iteration ar u mu veff J2RG2 eps_a eps_r max_order step b = Throw LengthError"
  using assms by (simp add: J2_iteration_def Let_def)

lemma iteration_Break:
  assumes "J2_iteration ar u mu veff J2RG2 eps_a eps_r max_order step b = Break b' h"
  shows "propagate_taylor_J2_step ar b step (select_order ar eps_a eps_r (state_norm b)) u mu veff J2RG2
           (state_norm b) eps_a eps_r
           (assign_table (nat (select_order ar eps_a eps_r (state_norm b) + 1)),
            assign_table (nat (select_order ar eps_a eps_r (state_norm b)))) = Inr (b', h)"
    and "\<bar>step\<bar> \<le> \<bar>h\<bar>"
  using assms by (simp_all add: J2_iteration_def Let_def split: sum.splits prod.splits if_splits)

lemma iteration_Continue:
  assumes "J2_iteration ar u mu veff J2RG2 eps_a eps_r max_order step b = Continue b' h step'"
  shows "propagate_taylor_J2_step ar b step (select_order ar eps_a eps_r (state_norm b)) u mu veff J2RG2
           (state_norm b) eps_a eps_r
           (assign_table (nat (select_order ar eps_a eps_r (state_norm b) + 1)),
            assign_table (nat (select_order ar eps_a eps_r (state_norm b)))) = Inr (b', h)"
    and "\<bar>h\<bar> < \<bar>step\<bar>" and "step' = step - h"
  using assms by (simp_all add: J2_iteration_def Let_def split: sum.splits prod.splits if_splits)

lemma iteration_of_step:
  assumes "select_order ar eps_a eps_r (state_norm b) \<le> max_order"
    and "propagate_taylor_J2_step ar b step (select_order ar eps_a eps_r (state_norm b)) u mu veff J2RG2
           (state_norm b) eps_a eps_r
           (assign_table (nat (select_order ar eps_a eps_r (state_norm b) + 1)),
            assign_table (nat (select_order ar eps_a eps_r (state_norm b)))) = Inr (b', h)"
  shows "J2_iteration ar u mu veff J2RG2 eps_a eps_r max_order step b =
           (if \<bar>step\<bar> \<le> \<bar>h\<bar> then Break b' h else Continue b' h (step - h))"
proof -
  have "1 \<le> select_order ar eps_a eps_r (state_norm b)" using step_Inr(1) [OF assms(2) refl] .
  then show ?thesis using assms by (simp add: J2_iteration_def Let_def)
qed

lemma loop_done:
  "\<not> j < max_iter \<Longrightarrow>
   J2_loop ar u mu veff J2RG2 eps_a eps_r max_iter max_order j step b hs =
     \<lparr>raised = None, exit_body = b, exit_j = j, exit_step = step, exit_hs = hs\<rparr>"
  by (subst J2_loop.simps) simp

lemma loop_Throw:
  "j < max_iter \<Longrightarrow> J2_iteration ar u mu veff J2RG2 eps_a eps_r max_order step b = Throw e \<Longrightarrow>
   J2_loop ar u mu veff J2RG2 eps_a eps_r max_iter max_order j step b hs =
     \<lparr>raised = Some e, exit_body = b, exit_j = j, exit_step = step, exit_hs = hs\<rparr>"
  by (subst J2_loop.simps) simp

lemma loop_Break:
  "j < max_iter \<Longrightarrow> J2_iteration ar u mu veff J2RG2 eps_a eps_r max_order step b = Break b' h \<Longrightarrow>
   J2_loop ar u mu veff J2RG2 eps_a eps_r max_iter max_order j step b hs =
     \<lparr>raised = None, exit_body = b', exit_j = j, exit_step = step, exit_hs = hs @ [h]\<rparr>"
  by (subst J2_loop.simps) simp

lemma loop_Continue:
  "j < max_iter \<Longrightarrow> J2_iteration ar u mu veff J2RG2 eps_a eps_r max_order step b = Continue b' h step' \<Longrightarrow>
   J2_loop ar u mu veff J2RG2 eps_a eps_r max_iter max_order j step b hs =
     J2_loop ar u mu veff J2RG2 eps_a eps_r max_iter max_order (j + 1) step' b' (hs @ [h])"
  by (subst J2_loop.simps) simp

text \<open>A rule for properties of the exit of the loop, one case per way out of a pass.\<close>

lemma loop_induct [case_names finished throws breaks continues]:
  assumes "\<And>j step b hs. \<not> j < max_iter \<Longrightarrow>
             P j step b hs \<lparr>raised = None, exit_body = b, exit_j = j, exit_step = step, exit_hs = hs\<rparr>"
    and "\<And>j step b hs e. j < max_iter \<Longrightarrow>
             J2_iteration ar u mu veff J2RG2 eps_a eps_r max_order step b = Throw e \<Longrightarrow>
             P j step b hs \<lparr>raised = Some e, exit_body = b, exit_j = j, exit_step = step, exit_hs = hs\<rparr>"
    and "\<And>j step b hs b' h. j < max_iter \<Longrightarrow>
             J2_iteration ar u mu veff J2RG2 eps_a eps_r max_order step b = Break b' h \<Longrightarrow>
             P j step b hs \<lparr>raised = None, exit_body = b', exit_j = j, exit_step = step, exit_hs = hs @ [h]\<rparr>"
    and "\<And>j step b hs b' h step'. j < max_iter \<Longrightarrow>
             J2_iteration ar u mu veff J2RG2 eps_a eps_r max_order step b = Continue b' h step' \<Longrightarrow>
             P (j + 1) step' b' (hs @ [h])
               (J2_loop ar u mu veff J2RG2 eps_a eps_r max_iter max_order (j + 1) step' b' (hs @ [h])) \<Longrightarrow>
             P j step b hs
               (J2_loop ar u mu veff J2RG2 eps_a eps_r max_iter max_order (j + 1) step' b' (hs @ [h]))"
  shows "P j step b hs (J2_loop ar u mu veff J2RG2 eps_a eps_r max_iter max_order j step b hs)"
  using assms
proof (induction ar u mu veff J2RG2 eps_a eps_r max_iter max_order j step b hs rule: J2_loop.induct)
  case (1 ar u mu veff J2RG2 eps_a eps_r max_iter max_order j step b hs)
  show ?case
  proof (cases "j < max_iter")
    case False
    show ?thesis unfolding loop_done [OF False] by (rule "1.prems"(1) [OF False])
  next
    case True
    show ?thesis
    proof (cases "J2_iteration ar u mu veff J2RG2 eps_a eps_r max_order step b")
      case (Throw e)
      show ?thesis unfolding loop_Throw [OF True Throw] by (rule "1.prems"(2) [OF True Throw])
    next
      case (Break b' h)
      show ?thesis unfolding loop_Break [OF True Break] by (rule "1.prems"(3) [OF True Break])
    next
      case (Continue b' h step')
      have "P (j + 1) step' b' (hs @ [h])
              (J2_loop ar u mu veff J2RG2 eps_a eps_r max_iter max_order (j + 1) step' b' (hs @ [h]))"
        using "1.IH" [OF True Continue] "1.prems" by blast
      then show ?thesis unfolding loop_Continue [OF True Continue]
        by (rule "1.prems"(4) [OF True Continue])
    qed
  qed
qed


lemma loop_not_limit:
  "raised (J2_loop ar u mu veff J2RG2 eps_a eps_r max_iter max_order j step b hs) \<noteq> Some IterationLimitExceeded"
  by (rule loop_induct [where P = "\<lambda>j step b hs ex. raised ex \<noteq> Some IterationLimitExceeded"])
     (auto dest: iteration_Throw)

lemma loop_hs_prefix:
  "\<exists>ys. exit_hs (J2_loop ar u mu veff J2RG2 eps_a eps_r max_iter max_order j step b hs) = hs @ ys"
  by (rule loop_induct [where P = "\<lambda>j step b hs ex. \<exists>ys. exit_hs ex = hs @ ys"]) auto

lemma loop_untouched:
  "exit_hs (J2_loop ar u mu veff J2RG2 eps_a eps_r max_iter max_order j step b hs) = hs \<longrightarrow>
   exit_body (J2_loop ar u mu veff J2RG2 eps_a eps_r max_iter max_order j step b hs) = b"
proof (rule loop_induct [where P = "\<lambda>j step b hs ex. exit_hs ex = hs \<longrightarrow> exit_body ex = b"], goal_cases)
  case (4 j step b hs b' h step')
  obtain ys where "exit_hs (J2_loop ar u mu veff J2RG2 eps_a eps_r max_iter max_order (j + 1) step' b' (hs @ [h]))
      = (hs @ [h]) @ ys" using loop_hs_prefix by blast
  then show ?case by simp
qed simp_all

lemma nat_diff_Suc: "j < max_iter \<Longrightarrow> nat (max_iter - j) = Suc (nat (max_iter - (j + 1)))"
  for j max_iter :: int
  by simp

lemma loop_never_consumed:
  "(raised (J2_loop ar u mu veff J2RG2 eps_a eps_r max_iter max_order j step b hs) = None \<and>
    max_iter \<le> exit_j (J2_loop ar u mu veff J2RG2 eps_a eps_r max_iter max_order j step b hs))
   \<longleftrightarrow> never_consumed ar u mu veff J2RG2 eps_a eps_r max_order (nat (max_iter - j)) step b"
proof (rule loop_induct [where P = "\<lambda>j step b hs ex. (raised ex = None \<and> max_iter \<le> exit_j ex)
     \<longleftrightarrow> never_consumed ar u mu veff J2RG2 eps_a eps_r max_order (nat (max_iter - j)) step b"], goal_cases)
  case (1 j step b hs)
  then show ?case by simp
next
  case (2 j step b hs e)
  then show ?case by (simp add: nat_diff_Suc)
next
  case (3 j step b hs b' h)
  then show ?case by (simp add: nat_diff_Suc)
next
  case (4 j step b hs b' h step')
  then show ?case by (simp add: nat_diff_Suc)
qed

lemma loop_mass:
  "m0 (exit_body (J2_loop ar u mu veff J2RG2 eps_a eps_r max_iter max_order j step b hs)) =
     m0 b - sqrtT u / veff *
       (sum_list (exit_hs (J2_loop ar u mu veff J2RG2 eps_a eps_r max_iter max_order j step b hs)) - sum_list hs)"
proof (rule loop_induct [where P = "\<lambda>j step b hs ex.
         m0 (exit_body ex) = m0 b - sqrtT u / veff * (sum_list (exit_hs ex) - sum_list hs)"], goal_cases)
  case (3 j step b hs b' h)
  show ?case using step_mass [OF iteration_Break(1) [OF 3(2)]] by simp
next
  case (4 j step b hs b' h step')
  define c where "c = sqrtT u / veff"
  have "m0 b' = m0 b - c * h"
    using step_mass [OF iteration_Continue(1) [OF 4(2)]] by (simp add: c_def)
  then show ?case using 4(3) unfolding c_def [symmetric] by (simp add: algebra_simps)
qed simp_all

lemma state_norm_nonneg: "0 \<le> state_norm b"
  unfolding state_norm_def by (rule order_trans [OF abs_ge_zero max.cobounded2])

lemma clamp_step_full:
  assumes "c = NaN \<or> nonneg_ext c" "clamp_step h c = Fin s" "\<bar>h\<bar> \<le> \<bar>s\<bar>"
  shows "s = h"
proof (cases c)
  case (Fin v)
  then have v: "0 \<le> v" using assms(1) by simp
  show ?thesis
  proof (cases "\<bar>h\<bar> < v")
    case True
    then show ?thesis using assms(2) unfolding Fin clamp_step_Fin [OF v] by simp
  next
    case False
    then have e: "s = (if h < 0 then - v else v)" using assms(2) unfolding Fin clamp_step_Fin [OF v] by simp
    then have "\<bar>s\<bar> = v" using v by simp
    then have "\<bar>h\<bar> = v" using assms(3) False by linarith
    then show ?thesis unfolding e by (simp add: abs_if split: if_splits)
  qed
qed (use assms in simp_all)

lemma step_full:
  assumes "propagate_taylor_J2_step ar b h order thrust mu veff J2RG2 xm eps_a eps_r s = Inr (b', step)"
    and "\<bar>h\<bar> \<le> \<bar>step\<bar>" and "0 \<le> xm"
  shows "step = h"
  by (rule clamp_step_full [OF candidate_step_nonneg_NaN step_Inr(4) [OF assms(1) refl] assms(2)])
     (rule assms(3) norm_inf_nonneg)+

lemma loop_completed:
  "raised (J2_loop ar u mu veff J2RG2 eps_a eps_r max_iter max_order j step b hs) = None \<longrightarrow>
   exit_j (J2_loop ar u mu veff J2RG2 eps_a eps_r max_iter max_order j step b hs) < max_iter \<longrightarrow>
     exit_hs (J2_loop ar u mu veff J2RG2 eps_a eps_r max_iter max_order j step b hs) \<noteq> [] \<and>
     last (exit_hs (J2_loop ar u mu veff J2RG2 eps_a eps_r max_iter max_order j step b hs)) =
       exit_step (J2_loop ar u mu veff J2RG2 eps_a eps_r max_iter max_order j step b hs) \<and>
     sum_list (exit_hs (J2_loop ar u mu veff J2RG2 eps_a eps_r max_iter max_order j step b hs)) =
       sum_list hs + step"
proof (rule loop_induct [where P = "\<lambda>j step b hs ex. raised ex = None \<longrightarrow> exit_j ex < max_iter \<longrightarrow>
         exit_hs ex \<noteq> [] \<and> last (exit_hs ex) = exit_step ex \<and> sum_list (exit_hs ex) = sum_list hs + step"],
       goal_cases)
  case (3 j step b hs b' h)
  have "h = step" using step_full [OF iteration_Break [OF 3(2)] state_norm_nonneg] .
  then show ?case by simp
next
  case (4 j step b hs b' h step')
  show ?case using 4(3) iteration_Continue(3) [OF 4(2)] by simp
qed simp_all

lemma propagate_exit:
  "propagate_taylor_J2 ar b u t0 mu veff J2RG2 a r max_iter max_order =
    (let ex = J2_loop ar u mu veff J2RG2 (d_pow10 ar a) (d_pow10 ar r) max_iter max_order 0 t0 b []
     in case raised ex of
          Some e \<Rightarrow> (Some e, exit_body ex)
        | None \<Rightarrow> if max_iter \<le> exit_j ex then (Some IterationLimitExceeded, exit_body ex)
                  else (None, exit_body ex))"
  by (simp add: propagate_taylor_J2_def Let_def split: option.splits)

subsection \<open>Orders selected for the reference tolerances\<close>


lemma regular_circular_orbit [simp]: "r0 circular_orbit \<noteq> (0, 0, 0)" "m0 circular_orbit \<noteq> 0"
  by (simp_all add: circular_orbit_def)

lemma state_norm_circular_orbit: "state_norm circular_orbit = 1"
  by (simp add: state_norm_def circular_orbit_def ix0_def ix1_def ix2_def)

lemma ln10_le_9: "ln (10::real) \<le> 9"
  using ln_le_minus_one [of "10::real"] by simp

lemma exp1_ge_2: "2 \<le> exp (1::real)"
  using exp_ge_add_one_self [of "1::real"] by simp

lemma ln10_gt_2: "2 < ln (10::real)"
proof -
  have "exp (2::real) = exp 1 * exp 1" by (simp add: exp_add [symmetric])
  also have "\<dots> \<le> 3 * 3" by (intro mult_mono exp_le) simp_all
  finally have "exp (2::real) < 10" by simp
  then have "ln (exp (2::real)) < ln 10" by (subst ln_less_cancel_iff) simp_all
  then show ?thesis by simp
qed

lemma ln10_le_4: "ln (10::real) \<le> 4"
proof -
  have "(2::real) * 2 \<le> exp 1 * exp 1" by (intro mult_mono exp1_ge_2) simp_all
  then have "(4::real) \<le> exp 2" by (simp add: exp_add [symmetric])
  then have "(4::real) * 4 \<le> exp 2 * exp 2" by (intro mult_mono) simp_all
  then have "(10::real) \<le> exp 4" by (simp add: exp_add [symmetric])
  then have "ln (10::real) \<le> ln (exp 4)" by (subst ln_le_cancel_iff) simp_all
  then show ?thesis by simp
qed

lemma select_eps_m_same: "select_eps_m ar e e xm = e"
  by (simp add: select_eps_m_def)

text \<open>Both tolerances \<open>10^-10\<close> (the defaults): an order between 7 and 46.\<close>

lemma select_order_default:
  "6 < select_order exact (10 powr real_of_int (- 10)) (10 powr real_of_int (- 10)) xm"
  "select_order exact (10 powr real_of_int (- 10)) (10 powr real_of_int (- 10)) xm \<le> 46"
proof -
  have e: "select_order exact (10 powr real_of_int (- 10)) (10 powr real_of_int (- 10)) xm
             = \<lceil>5 * ln 10 + (1::real)\<rceil>"
    unfolding select_order_exact select_eps_m_same ln_pow10 by simp
  have "6 < 5 * ln 10 + (1::real)" using ln10_gt_1 by simp
  then show "6 < select_order exact (10 powr real_of_int (- 10)) (10 powr real_of_int (- 10)) xm"
    unfolding e by linarith
  have "5 * ln 10 + (1::real) \<le> 46" using ln10_le_9 by simp
  then show "select_order exact (10 powr real_of_int (- 10)) (10 powr real_of_int (- 10)) xm \<le> 46"
    unfolding e by linarith
qed

text \<open>Both tolerances \<open>10^-1\<close>: order 3.\<close>

lemma pow10_m1: "10 powr real_of_int (- 1) = (1 / 10 :: real)"
  by (simp add: powr_minus_divide)

lemma select_order_tenth: "select_order exact (1 / 10) (1 / 10) xm = 3"
proof -
  have "ln (1 / 10 :: real) = - ln 10" by (simp add: ln_div)
  then have e: "select_order exact (1 / 10) (1 / 10) xm = \<lceil>ln 10 / 2 + (1::real)\<rceil>"
    unfolding select_order_exact select_eps_m_same by simp
  have "2 < ln 10 / 2 + (1::real)" "ln 10 / 2 + (1::real) \<le> 3"
    using ln10_gt_2 ln10_le_4 by simp_all
  then show ?thesis unfolding e by linarith
qed



subsection \<open>Arithmetics that round\<close>

text \<open>
  At a boundary of the regime test the arithmetic decides. With a state of norm 10 and the
  tolerance exponents \<open>-10\<close> and \<open>-11\<close> the real product \<open>10^-11 * 10\<close> is \<open>10^-10\<close>, not below
  the absolute tolerance, and the target error is the relative tolerance; a product
  rounded down is below it, and the target error is the absolute tolerance.
\<close>

lemma pow10_m11: "10 powr real_of_int (- 11) * 10 = (10::real) powr real_of_int (- 10)"
proof -
  have "(10::real) = 10 powr 1" by simp
  then have "10 powr real_of_int (- 11) * (10::real) = 10 powr (real_of_int (- 11) + 1)"
    by (simp only: powr_add)
  then show ?thesis by simp
qed

lemma regime_at_boundary:
  "select_eps_m exact (d_pow10 exact (- 10)) (d_pow10 exact (- 11)) 10 = d_pow10 exact (- 11)"
  "select_eps_m rounds_down (d_pow10 rounds_down (- 10)) (d_pow10 rounds_down (- 11)) 10
     = d_pow10 rounds_down (- 10)"
proof -
  show "select_eps_m exact (d_pow10 exact (- 10)) (d_pow10 exact (- 11)) 10 = d_pow10 exact (- 11)"
    unfolding select_eps_m_def d_mul_exact d_pow10_exact pow10_m11 by simp
  have p: "d_pow10 rounds_down k = 10 powr real_of_int k" for k
    by (simp add: rounds_down_def)
  have m: "d_mul rounds_down x y = x * y * (1 - 1 / 2 ^ 53)" for x y
    by (simp add: rounds_down_def)
  have "(10::real) powr real_of_int (- 10) * (1 - 1 / 2 ^ 53) < 10 powr real_of_int (- 10) * 1"
    by (intro mult_strict_left_mono) simp_all
  then show "select_eps_m rounds_down (d_pow10 rounds_down (- 10)) (d_pow10 rounds_down (- 11)) 10
     = d_pow10 rounds_down (- 10)"
    unfolding select_eps_m_def p m pow10_m11 by simp
qed

text \<open>
  When \<^verbatim>\<open>pow\<close> underflows the order is negative: the first pass makes \<^verbatim>\<open>assign\<close> throw, and
  the state is untouched.
\<close>

lemma underflow_call:
  assumes "1 \<le> max_iter" "0 \<le> max_order"
  shows "propagate_taylor_J2 underflow b u t0 mu veff J2RG2 a r max_iter max_order = (Some LengthError, b)"
proof -
  have o: "select_order underflow eps_a eps_r xm = - 2147483648" for eps_a eps_r xm
    by (simp add: select_order_def underflow_def)
  have "J2_iteration underflow u mu veff J2RG2 (d_pow10 underflow a) (d_pow10 underflow r) max_order t0 b
          = Throw LengthError"
    by (rule iteration_LengthError) (use assms(2) in \<open>simp_all add: o\<close>)
  then have "J2_loop underflow u mu veff J2RG2 (d_pow10 underflow a) (d_pow10 underflow r) max_iter max_order 0 t0 b [] =
     \<lparr>raised = Some LengthError, exit_body = b, exit_j = 0, exit_step = t0, exit_hs = []\<rparr>"
    using assms(1) by (intro loop_Throw) simp_all
  then show ?thesis by (simp add: propagate_taylor_J2_def)
qed

subsection \<open>Steps from the circular orbit at order 3\<close>

lemma circular_orbit_norms:
  "norm_inf (fst (taylor_coefficients circular_orbit 3 (0, 0, 0) 1 1 0 (assign_table 4, assign_table 3)) ! 3) = 1 / 6"
  "norm_inf (fst (taylor_coefficients circular_orbit 3 (0, 0, 0) 1 1 0 (assign_table 4, assign_table 3)) ! 2) = 1 / 2"
  unfolding circular_orbit_x by (simp_all add: norm_inf_def)

lemma circular_orbit_candidate:
  "candidate_step exact (1 / 10) (1 / 10) 1 (1 / 6) (1 / 2) 3 =
     Fin (min (6 powr (1 / 3)) (2 powr (1 / 2)) / (exp 1 * exp 1))"
  by (simp add: candidate_step_def rho_m_def ext_div_def pow_inv_def)

lemma circular_orbit_candidate_bounds:
  "1 / 10 < min ((6::real) powr (1 / 3)) (2 powr (1 / 2)) / (exp 1 * exp 1)"
  "min ((6::real) powr (1 / 3)) (2 powr (1 / 2)) / (exp 1 * exp 1) \<le> 1 / 2"
proof -
  let ?m = "min ((6::real) powr (1 / 3)) (2 powr (1 / 2))"
  have e9: "exp (1::real) * exp 1 \<le> 3 * 3" by (intro mult_mono exp_le) simp_all
  have e4: "(2::real) * 2 \<le> exp 1 * exp 1" by (intro mult_mono exp1_ge_2) simp_all
  have m1: "1 \<le> ?m" by (simp add: ge_one_powr_ge_zero)
  have "(2::real) powr (1 / 2) \<le> 2 powr 1" by (intro powr_mono) simp_all
  then have m2: "?m \<le> 2" by simp
  have "1 / 10 < 1 / (exp (1::real) * exp 1)" using e9 by (simp add: field_simps)
  also have "\<dots> \<le> ?m / (exp 1 * exp 1)" using m1 by (intro divide_right_mono) simp_all
  finally show "1 / 10 < ?m / (exp 1 * exp 1)" .
  have "?m / (exp 1 * exp 1) \<le> 2 / (exp 1 * exp 1)" using m2 by (intro divide_right_mono) simp_all
  also have "\<dots> \<le> 2 / (2 * 2)" using e4 by (intro divide_left_mono) simp_all
  finally show "?m / (exp 1 * exp 1) \<le> 1 / 2" by simp
qed

lemma upt_1_4: "[1..<Suc 3] = [1, 2, 3]"
  by (simp add: upt_rec)

lemma circular_orbit_horner:
  "horner (fst (taylor_coefficients circular_orbit 3 (0, 0, 0) 1 1 0 (assign_table 4, assign_table 3)))
     (1 / 10) 3 (r0 circular_orbit) (v0 circular_orbit) = (r0 arrival, v0 arrival, 1 / 10000)"
  unfolding circular_orbit_x horner_def upt_1_4
  by (simp add: horner_body_def rd_Cons circular_orbit_def arrival_def ix0_def ix1_def ix2_def)

text \<open>A step of a tenth: the candidate is longer, so the step is the whole remaining duration.\<close>

lemma circular_orbit_step_tenth:
  "propagate_taylor_J2_step exact circular_orbit (1 / 10) 3 (0, 0, 0) 1 1 0 1 (1 / 10) (1 / 10)
     (assign_table 4, assign_table 3) = Inr (arrival, 1 / 10)"
proof -
  have c: "clamp_step (1 / 10) (candidate_step exact (1 / 10) (1 / 10) 1 (1 / 6) (1 / 2) 3) = Fin (1 / 10)"
    unfolding circular_orbit_candidate
    by (rule clamp_step_long) (use circular_orbit_candidate_bounds(1) in linarith)+
  have m: "rd (fst (taylor_coefficients circular_orbit 3 (0, 0, 0) 1 1 0 (assign_table 4, assign_table 3))) (Suc 0) 6 = 0"
    unfolding circular_orbit_x by (simp add: rd_Cons)
  show ?thesis
    unfolding propagate_taylor_J2_step_def Let_def
    by (simp add: circular_orbit_norms c m circular_orbit_horner singular_def)
       (simp add: arrival_def circular_orbit_def)
qed

text \<open>With a remaining duration of 1 the step is the candidate, shorter than the duration.\<close>

lemma circular_orbit_step_one:
  "\<exists>b'. propagate_taylor_J2_step exact circular_orbit 1 3 (0, 0, 0) 1 1 0 1 (1 / 10) (1 / 10)
     (assign_table 4, assign_table 3) = Inr (b', min (6 powr (1 / 3)) (2 powr (1 / 2)) / (exp 1 * exp 1))"
proof -
  let ?m = "min ((6::real) powr (1 / 3)) (2 powr (1 / 2)) / (exp 1 * exp 1)"
  have c: "clamp_step 1 (candidate_step exact (1 / 10) (1 / 10) 1 (1 / 6) (1 / 2) 3) = Fin ?m"
    unfolding circular_orbit_candidate
    by (rule clamp_step_short) (use circular_orbit_candidate_bounds in linarith)+
  show ?thesis
    unfolding propagate_taylor_J2_step_def Let_def
    by (simp add: circular_orbit_norms c singular_def)
qed

lemma circular_orbit_pass_tenth:
  "J2_iteration exact (0, 0, 0) 1 1 0 (1 / 10) (1 / 10) 3000 (1 / 10) circular_orbit = Break arrival (1 / 10)"
proof -
  have "J2_iteration exact (0, 0, 0) 1 1 0 (1 / 10) (1 / 10) 3000 (1 / 10) circular_orbit =
          (if \<bar>1 / 10 :: real\<bar> \<le> \<bar>1 / 10\<bar> then Break arrival (1 / 10)
           else Continue arrival (1 / 10) (1 / 10 - 1 / 10))"
    by (rule iteration_of_step)
       (simp_all add: select_order_tenth state_norm_circular_orbit circular_orbit_step_tenth)
  then show ?thesis by simp
qed

lemma circular_orbit_pass_one:
  "\<exists>b' h. J2_iteration exact (0, 0, 0) 1 1 0 (1 / 10) (1 / 10) 3000 1 circular_orbit = Continue b' h (1 - h)
     \<and> 0 < h \<and> h < 1"
proof -
  let ?c = "min ((6::real) powr (1 / 3)) (2 powr (1 / 2)) / (exp 1 * exp 1)"
  obtain b' where s: "propagate_taylor_J2_step exact circular_orbit 1 3 (0, 0, 0) 1 1 0 1 (1 / 10) (1 / 10)
     (assign_table 4, assign_table 3) = Inr (b', ?c)"
    using circular_orbit_step_one by blast
  have c: "0 < ?c" "?c < 1" using circular_orbit_candidate_bounds by linarith+
  then have n: "\<not> \<bar>1 :: real\<bar> \<le> \<bar>?c\<bar>" by linarith
  have "J2_iteration exact (0, 0, 0) 1 1 0 (1 / 10) (1 / 10) 3000 1 circular_orbit =
          (if \<bar>1 :: real\<bar> \<le> \<bar>?c\<bar> then Break b' ?c else Continue b' ?c (1 - ?c))"
    by (rule iteration_of_step)
       (simp_all add: select_order_tenth state_norm_circular_orbit s)
  then have "J2_iteration exact (0, 0, 0) 1 1 0 (1 / 10) (1 / 10) 3000 1 circular_orbit = Continue b' ?c (1 - ?c)"
    unfolding if_not_P [OF n] .
  then show ?thesis using c by blast
qed

subsection \<open>A step of order 1\<close>

lemma assign_table_tiny:
  "assign_table (Suc 0) = [\<lambda>k. 0]" "assign_table 1 = [\<lambda>k. 0]" "assign_table 2 = [\<lambda>k. 0, \<lambda>k. 0]"
  by (simp_all add: assign_table_def eval_nat_numeral)

lemma taylor_coefficients_1:
  "taylor_coefficients b (Suc 0) thrust mu veff J2RG2 s = order_body thrust mu veff J2RG2 0 (seq (init_x b) s)"
  by (simp add: taylor_coefficients_def)

lemma sqrt_64: "sqrt (1 / 64) = 1 / 8"
  by (rule real_sqrt_unique) (simp_all add: power2_eq_square)

lemma far_state_x:
  "fst (taylor_coefficients far_state (Suc 0) (0, 0, 0) 1 1 0 (assign_table 2, assign_table (Suc 0))) =
     [(\<lambda>k. 0)(0 := 2, Suc 0 := 0, 2 := 0, 3 := 0, 4 := 1, 5 := 0, 6 := 1),
      (\<lambda>k. 0)(0 := 0, Suc 0 := 1, 2 := 0, 3 := - (1 / 4), 4 := 0, 5 := 0, 6 := 0)]"
  unfolding taylor_coefficients_1
  by (simp add: eval_rules assign_table_tiny far_state_def sqrt_64)

lemma far_state_norms:
  "norm_inf (fst (taylor_coefficients far_state (Suc 0) (0, 0, 0) 1 1 0 (assign_table 2, assign_table (Suc 0))) ! Suc 0) = 1"
  "norm_inf (fst (taylor_coefficients far_state (Suc 0) (0, 0, 0) 1 1 0 (assign_table 2, assign_table (Suc 0))) ! 0) = 2"
  unfolding far_state_x by (simp_all add: norm_inf_def)

text \<open>
  A step of order 1 from the state of norm 2, in the absolute regime: the second term of the
  estimate is \<^verbatim>\<open>pow(1 / 2, +inf) = 0\<close>, the candidate step is zero, and the step taken is
  zero whatever the remaining duration.
\<close>

lemma far_state_candidate: "candidate_step exact 1 (1 / 10) 2 1 2 (Suc 0) = Fin 0"
  unfolding candidate_step_def One_nat_def [symmetric] by (subst rho_m_order_1) simp_all

lemma far_state_step:
  "propagate_taylor_J2_step exact far_state h 1 (0, 0, 0) 1 1 0 2 1 (1 / 10)
     (assign_table 2, assign_table 1) = Inr (far_state, 0)"
proof -
  have c: "clamp_step h (candidate_step exact 1 (1 / 10) 2 1 2 (Suc 0)) = Fin 0"
    unfolding far_state_candidate by (simp add: clamp_step_Fin)
  have n: "\<not> singular far_state 1" by (simp add: singular_def far_state_def)
  show ?thesis
    by (rule step_still [OF _ _ _ refl _ n]) (simp_all add: far_state_norms c)
qed


text \<open>
  With \<open>log10tolerance = 0\<close> and \<open>log10rtolerance = -1\<close> the order selected from that state is
  1 and the regime is the absolute one: every pass takes a step of zero, and a call with a
  duration other than zero raises \<open>IterationLimitExceeded\<close> for every \<open>max_iter \<ge> 0\<close>.
\<close>

lemma far_state_order: "select_order exact 1 (1 / 10) 2 = 1"
  by (simp add: select_order_exact select_eps_m_exact)

lemma far_state_pass:
  assumes "t \<noteq> 0" "1 \<le> max_order"
  shows "J2_iteration exact (0, 0, 0) 1 1 0 1 (1 / 10) max_order t far_state = Continue far_state 0 t"
proof -
  have n: "state_norm far_state = 2"
    by (simp add: state_norm_def far_state_def ix0_def ix1_def ix2_def)
  have "J2_iteration exact (0, 0, 0) 1 1 0 1 (1 / 10) max_order t far_state =
          (if \<bar>t\<bar> \<le> \<bar>0\<bar> then Break far_state 0 else Continue far_state 0 (t - 0))"
    by (rule iteration_of_step) (simp_all add: far_state_order assms(2) n far_state_step [simplified])
  then show ?thesis using assms(1) by simp
qed

lemma far_state_never_consumed:
  assumes "t \<noteq> 0" "1 \<le> max_order"
  shows "never_consumed exact (0, 0, 0) 1 1 0 1 (1 / 10) max_order k t far_state"
  by (induction k) (simp_all add: far_state_pass [OF assms])

lemma far_state_call:
  assumes "t \<noteq> 0" "1 \<le> max_order" "0 \<le> max_iter"
  shows "fst (propagate_taylor_J2 exact far_state (0, 0, 0) t 1 1 0 0 (- 1) max_iter max_order)
           = Some IterationLimitExceeded"
proof -
  have "never_consumed exact (0, 0, 0) 1 1 0 (d_pow10 exact 0) (d_pow10 exact (- 1)) max_order (nat max_iter) t far_state"
    unfolding d_pow10_exact pow10_m1 using far_state_never_consumed [OF assms(1,2)] by simp
  then show ?thesis
    unfolding propagate_exit Let_def
    using loop_never_consumed [of exact "(0, 0, 0)" 1 1 0 "d_pow10 exact 0" "d_pow10 exact (- 1)" max_iter max_order 0 t far_state "[]"]
      loop_not_limit [of exact "(0, 0, 0)" 1 1 0 "d_pow10 exact 0" "d_pow10 exact (- 1)" max_iter max_order 0 t far_state "[]"]
    by (auto split: option.splits)
qed

subsection \<open>Leaving the loop\<close>

lemma propagate_limit_iff:
  assumes "- (2 ^ 31) < max_iter" "max_iter < 2 ^ 31"
  shows "fst (propagate_taylor_J2 ar b u t0 mu veff J2RG2 a r max_iter max_order) = Some IterationLimitExceeded
     \<longleftrightarrow> never_consumed ar u mu veff J2RG2 (d_pow10 ar a) (d_pow10 ar r) max_order
           (nat max_iter) t0 b"
proof -
  let ?ex = "J2_loop ar u mu veff J2RG2 (d_pow10 ar a) (d_pow10 ar r) max_iter max_order 0 t0 b []"
  have n: "raised ?ex \<noteq> Some IterationLimitExceeded" by (rule loop_not_limit)
  have "fst (propagate_taylor_J2 ar b u t0 mu veff J2RG2 a r max_iter max_order) = Some IterationLimitExceeded
          \<longleftrightarrow> raised ?ex = None \<and> max_iter \<le> exit_j ?ex"
    unfolding propagate_exit Let_def using n by (cases "raised ?ex") auto
  then show ?thesis using loop_never_consumed [of ar u mu veff J2RG2 _ _ max_iter max_order 0 t0 b "[]"]
    by simp
qed

text \<open>
  Claim C2. A pass through the loop body whose step function returns \<open>h\<close> breaks out of
  the loop exactly when \<open>\<bar>h\<bar> \<ge> \<bar>step\<bar>\<close>, \<open>step\<close> being the remaining duration; otherwise
  the loop goes on with the remaining duration \<open>step - h\<close>. For an iteration budget
  \<open>0 \<le> max_iter\<close> (a 32-bit \<^verbatim>\<open>int\<close>), the call raises \<open>IterationLimitExceeded\<close> if and only if
  each of \<open>max_iter\<close> passes took its step without consuming the remaining duration.
\<close>

theorem stepping_loop_exit:
  "(propagate_taylor_J2_step ar b step (select_order ar eps_a eps_r (state_norm b)) u mu veff J2RG2
        (state_norm b) eps_a eps_r
        (assign_table (nat (select_order ar eps_a eps_r (state_norm b) + 1)),
         assign_table (nat (select_order ar eps_a eps_r (state_norm b)))) = Inr (b', h) \<and>
      select_order ar eps_a eps_r (state_norm b) \<le> max_order \<longrightarrow>
      J2_iteration ar u mu veff J2RG2 eps_a eps_r max_order step b =
        (if \<bar>h\<bar> \<ge> \<bar>step\<bar> then Break b' h else Continue b' h (step - h))) \<and>
   (J2_iteration ar u mu veff J2RG2 eps_a eps_r max_order step b = Break b' h \<longrightarrow>
      \<bar>h\<bar> \<ge> \<bar>step\<bar> \<and>
      (j < max_iter \<longrightarrow>
         J2_loop ar u mu veff J2RG2 eps_a eps_r max_iter max_order j step b hs =
           \<lparr>raised = None, exit_body = b', exit_j = j, exit_step = step, exit_hs = hs @ [h]\<rparr>)) \<and>
   (J2_iteration ar u mu veff J2RG2 eps_a eps_r max_order step b = Continue b' h step' \<longrightarrow>
      \<bar>h\<bar> < \<bar>step\<bar> \<and> step' = step - h \<and>
      (j < max_iter \<longrightarrow>
         J2_loop ar u mu veff J2RG2 eps_a eps_r max_iter max_order j step b hs =
           J2_loop ar u mu veff J2RG2 eps_a eps_r max_iter max_order (j + 1) (step - h) b' (hs @ [h]))) \<and>
   (0 \<le> max_iter \<and> max_iter < 2 ^ 31 \<longrightarrow>
      (fst (propagate_taylor_J2 ar b u t0 mu veff J2RG2 a r max_iter max_order) = Some IterationLimitExceeded
         \<longleftrightarrow> never_consumed ar u mu veff J2RG2 (d_pow10 ar a) (d_pow10 ar r) max_order
               (nat max_iter) t0 b))"
proof (intro conjI impI)
  assume "propagate_taylor_J2_step ar b step (select_order ar eps_a eps_r (state_norm b)) u mu veff J2RG2
        (state_norm b) eps_a eps_r
        (assign_table (nat (select_order ar eps_a eps_r (state_norm b) + 1)),
         assign_table (nat (select_order ar eps_a eps_r (state_norm b)))) = Inr (b', h) \<and>
      select_order ar eps_a eps_r (state_norm b) \<le> max_order"
  then show "J2_iteration ar u mu veff J2RG2 eps_a eps_r max_order step b =
        (if \<bar>h\<bar> \<ge> \<bar>step\<bar> then Break b' h else Continue b' h (step - h))"
    using iteration_of_step by blast
next
  assume "J2_iteration ar u mu veff J2RG2 eps_a eps_r max_order step b = Break b' h"
  then show "\<bar>h\<bar> \<ge> \<bar>step\<bar>" by (rule iteration_Break(2))
next
  assume "J2_iteration ar u mu veff J2RG2 eps_a eps_r max_order step b = Break b' h" "j < max_iter"
  then show "J2_loop ar u mu veff J2RG2 eps_a eps_r max_iter max_order j step b hs =
           \<lparr>raised = None, exit_body = b', exit_j = j, exit_step = step, exit_hs = hs @ [h]\<rparr>"
    by (simp only: loop_Break)
next
  assume "J2_iteration ar u mu veff J2RG2 eps_a eps_r max_order step b = Continue b' h step'"
  then show "\<bar>h\<bar> < \<bar>step\<bar>" by (rule iteration_Continue(2))
next
  assume "J2_iteration ar u mu veff J2RG2 eps_a eps_r max_order step b = Continue b' h step'"
  then show "step' = step - h" by (rule iteration_Continue(3))
next
  assume c: "J2_iteration ar u mu veff J2RG2 eps_a eps_r max_order step b = Continue b' h step'" and "j < max_iter"
  then show "J2_loop ar u mu veff J2RG2 eps_a eps_r max_iter max_order j step b hs =
           J2_loop ar u mu veff J2RG2 eps_a eps_r max_iter max_order (j + 1) (step - h) b' (hs @ [h])"
    using iteration_Continue(3) [OF c] by (simp only: loop_Continue)
next
  assume "0 \<le> max_iter \<and> max_iter < 2 ^ 31"
  then show "fst (propagate_taylor_J2 ar b u t0 mu veff J2RG2 a r max_iter max_order) = Some IterationLimitExceeded
         \<longleftrightarrow> never_consumed ar u mu veff J2RG2 (d_pow10 ar a) (d_pow10 ar r) max_order
               (nat max_iter) t0 b"
    by (intro propagate_limit_iff) simp_all
qed

theorem stepping_loop_exit_witness:
  "J2_loop exact (0, 0, 0) 1 1 0 (1 / 10) (1 / 10) 100000 3000 0 (1 / 10) circular_orbit [] =
     \<lparr>raised = None, exit_body = arrival, exit_j = 0, exit_step = 1 / 10, exit_hs = [1 / 10]\<rparr> \<and>
   (\<exists>b' h. \<bar>h\<bar> < \<bar>1\<bar> \<and>
      J2_loop exact (0, 0, 0) 1 1 0 (1 / 10) (1 / 10) 100000 3000 0 1 circular_orbit [] =
        J2_loop exact (0, 0, 0) 1 1 0 (1 / 10) (1 / 10) 100000 3000 1 (1 - h) b' [h]) \<and>
   fst (propagate_taylor_J2 exact circular_orbit (0, 0, 0) 1 1 1 0 (- 1) (- 1) 0 3000) = Some IterationLimitExceeded"
proof -
  note t1 = stepping_loop_exit [THEN conjunct2, THEN conjunct1, rule_format, OF circular_orbit_pass_tenth,
      THEN conjunct2, rule_format, of 0 100000 "[]"]
  obtain b' h where c: "J2_iteration exact (0, 0, 0) 1 1 0 (1 / 10) (1 / 10) 3000 1 circular_orbit = Continue b' h (1 - h)"
    using circular_orbit_pass_one by blast
  note t2 = stepping_loop_exit [THEN conjunct2, THEN conjunct2, THEN conjunct1, rule_format, OF c]
  have l: "J2_loop exact (0, 0, 0) 1 1 0 (1 / 10) (1 / 10) 100000 3000 0 1 circular_orbit [] =
        J2_loop exact (0, 0, 0) 1 1 0 (1 / 10) (1 / 10) 100000 3000 1 (1 - h) b' [h]"
    using t2 [THEN conjunct2, THEN conjunct2, rule_format, of 0 100000 "[]"] by simp
  have t3: "fst (propagate_taylor_J2 exact circular_orbit (0, 0, 0) 1 1 1 0 (- 1) (- 1) 0 3000) = Some IterationLimitExceeded"
    using stepping_loop_exit [THEN conjunct2, THEN conjunct2, THEN conjunct2, rule_format,
        of 0 exact circular_orbit "(0, 0, 0)" 1 1 1 0 "- 1" "- 1" 3000] by simp
  show ?thesis using t1 t2 [THEN conjunct1] l t3 by auto
qed

subsection \<open>Mass\<close>


lemma propagate_body:
  "snd (propagate_taylor_J2 ar b u t0 mu veff J2RG2 a r max_iter max_order) =
     exit_body (J2_loop ar u mu veff J2RG2 (d_pow10 ar a) (d_pow10 ar r) max_iter max_order 0 t0 b [])"
  by (simp add: propagate_taylor_J2_def Let_def split: option.splits)








subsection \<open>A requested duration of zero\<close>

lemma step_zero:
  assumes "1 \<le> order" "order + 1 \<le> int (length (fst s))" "order \<le> int (length (snd s))" "0 < xm"
    and "\<not> singular b veff"
  shows "propagate_taylor_J2_step ar b 0 order thrust mu veff J2RG2 xm eps_a eps_r s = Inr (b, 0)"
proof -
  define x where "x = fst (taylor_coefficients b (nat order) thrust mu veff J2RG2 s)"
  have "clamp_step 0 (candidate_step ar eps_a eps_r xm (norm_inf (x ! nat order))
                  (norm_inf (x ! (nat order - 1))) (nat order)) = Fin 0"
    by (intro clamp_step_zero candidate_step_nonneg assms(4) norm_inf_nonneg)
  from step_still [OF assms(1,2,3) x_def this assms(5)] show ?thesis .
qed


lemma pass_zero:
  assumes "1 \<le> select_order ar eps_a eps_r (state_norm b)" "select_order ar eps_a eps_r (state_norm b) \<le> max_order"
    and "0 < state_norm b" and "\<not> singular b veff"
  shows "J2_iteration ar u mu veff J2RG2 eps_a eps_r max_order 0 b = Break b 0"
proof -
  have "J2_iteration ar u mu veff J2RG2 eps_a eps_r max_order 0 b =
          (if \<bar>0 :: real\<bar> \<le> \<bar>0\<bar> then Break b 0 else Continue b 0 (0 - 0))"
    using assms by (intro iteration_of_step step_zero) simp_all
  then show ?thesis by simp
qed

lemma loop_zero:
  assumes "1 \<le> select_order ar eps_a eps_r (state_norm b)" "select_order ar eps_a eps_r (state_norm b) \<le> max_order"
    and "0 < state_norm b" and "\<not> singular b veff" and "1 \<le> max_iter"
  shows "J2_loop ar u mu veff J2RG2 eps_a eps_r max_iter max_order 0 0 b [] =
           \<lparr>raised = None, exit_body = b, exit_j = 0, exit_step = 0, exit_hs = [0]\<rparr>"
  using loop_Break [OF _ pass_zero [OF assms(1,2,3,4)], of 0 max_iter u mu J2RG2 "[]"] assms(5) by simp

lemma propagate_zero:
  assumes "1 \<le> select_order ar (d_pow10 ar a) (d_pow10 ar r) (state_norm b)"
    and "select_order ar (d_pow10 ar a) (d_pow10 ar r) (state_norm b) \<le> max_order"
    and "0 < state_norm b" and "\<not> singular b veff" and "1 \<le> max_iter"
  shows "propagate_taylor_J2 ar b u 0 mu veff J2RG2 a r max_iter max_order = (None, b)"
  unfolding propagate_exit Let_def loop_zero [OF assms]
  using assms(5) by simp




text \<open>
  With both tolerances \<open>10^2\<close> the selected order is negative, and \<^verbatim>\<open>assign\<close> throws before any
  step, also for a duration of zero.
\<close>

lemma select_order_hundred: "select_order exact (10 powr real_of_int 2) (10 powr real_of_int 2) xm < 0"
proof -
  have "ln (10 powr real_of_int 2) = real_of_int 2 * ln (10::real)" by (rule ln_pow10)
  then have e: "select_order exact (10 powr real_of_int 2) (10 powr real_of_int 2) xm = \<lceil>1 - ln (10::real)\<rceil>"
    unfolding select_order_exact select_eps_m_same by simp
  have "1 - ln (10::real) \<le> - 1" using ln10_gt_2 by simp
  then show ?thesis unfolding e by linarith
qed

lemma zero_duration_length_error:
  "propagate_taylor_J2 exact circular_orbit (0, 0, 0) 0 1 1 0 2 2 100000 3000 = (Some LengthError, circular_orbit)"
proof -
  let ?o = "select_order exact (10 powr real_of_int 2) (10 powr real_of_int 2) (state_norm circular_orbit)"
  have o: "?o < 0" by (rule select_order_hundred)
  then have "\<not> 3000 < ?o" by linarith
  then have "J2_iteration exact (0, 0, 0) 1 1 0 (10 powr real_of_int 2) (10 powr real_of_int 2) 3000 0 circular_orbit
          = Throw LengthError"
    unfolding J2_iteration_def Let_def using o by (simp only: if_False if_True)
  then have "J2_loop exact (0, 0, 0) 1 1 0 (10 powr real_of_int 2) (10 powr real_of_int 2) 100000 3000 0 0
      circular_orbit [] =
     \<lparr>raised = Some LengthError, exit_body = circular_orbit, exit_j = 0, exit_step = 0, exit_hs = []\<rparr>"
    by (intro loop_Throw) simp_all
  then show ?thesis unfolding propagate_taylor_J2_def Let_def by simp
qed

subsection \<open>What a call leaves to its caller\<close>

lemma loop_last_pass:
  "raised (J2_loop ar u mu veff J2RG2 eps_a eps_r max_iter max_order j step b hs) = None \<longrightarrow>
   exit_j (J2_loop ar u mu veff J2RG2 eps_a eps_r max_iter max_order j step b hs) < max_iter \<longrightarrow>
     (\<exists>b1. J2_iteration ar u mu veff J2RG2 eps_a eps_r max_order
              (exit_step (J2_loop ar u mu veff J2RG2 eps_a eps_r max_iter max_order j step b hs)) b1 =
            Break (exit_body (J2_loop ar u mu veff J2RG2 eps_a eps_r max_iter max_order j step b hs))
              (last (exit_hs (J2_loop ar u mu veff J2RG2 eps_a eps_r max_iter max_order j step b hs))))"
proof (rule loop_induct [where P = "\<lambda>j step b hs ex. raised ex = None \<longrightarrow> exit_j ex < max_iter \<longrightarrow>
         (\<exists>b1. J2_iteration ar u mu veff J2RG2 eps_a eps_r max_order (exit_step ex) b1 =
            Break (exit_body ex) (last (exit_hs ex)))"], goal_cases)
  case (3 j step b hs b' h)
  then show ?case by auto
qed simp_all

lemma propagate_completed:
  assumes "- (2 ^ 31) < max_iter" "max_iter < 2 ^ 31"
    and "fst (propagate_taylor_J2 ar b u t0 mu veff J2RG2 a r max_iter max_order) = None"
  shows "raised (J2_loop ar u mu veff J2RG2 (d_pow10 ar a) (d_pow10 ar r) max_iter max_order 0 t0 b []) = None"
    and "exit_j (J2_loop ar u mu veff J2RG2 (d_pow10 ar a) (d_pow10 ar r) max_iter max_order 0 t0 b []) < max_iter"
  using assms(3) unfolding propagate_exit Let_def
  by (auto split: option.splits if_splits)

text \<open>
  Claim C9, as amended. A completed call of \<^verbatim>\<open>propagate_taylor_J2\<close> gives its caller the
  in-place-mutated state and nothing else: the function returns no value. The length of
  the last step is the value that \<^verbatim>\<open>propagate_taylor_J2_step\<close> returned to the last pass of
  the loop; it equals the duration that remained before that step, and the steps of a
  completed call add up to the requested duration \<open>t0\<close>.
\<close>

theorem completed_call:
  assumes "- (2 ^ 31) < max_iter" and "max_iter < 2 ^ 31"
    and "fst (propagate_taylor_J2 ar b u t0 mu veff J2RG2 a r max_iter max_order) = None"
    and "ex = J2_loop ar u mu veff J2RG2 (d_pow10 ar a) (d_pow10 ar r) max_iter max_order 0 t0 b []"
  shows "propagate_taylor_J2 ar b u t0 mu veff J2RG2 a r max_iter max_order = (None, exit_body ex) \<and>
         exit_hs ex \<noteq> [] \<and> last (exit_hs ex) = exit_step ex \<and> sum_list (exit_hs ex) = t0 \<and>
         (\<exists>b1. propagate_taylor_J2_step ar b1 (exit_step ex)
                 (select_order ar (d_pow10 ar a) (d_pow10 ar r) (state_norm b1)) u mu veff J2RG2
                 (state_norm b1) (d_pow10 ar a) (d_pow10 ar r)
                 (assign_table (nat (select_order ar (d_pow10 ar a) (d_pow10 ar r) (state_norm b1) + 1)),
                  assign_table (nat (select_order ar (d_pow10 ar a) (d_pow10 ar r) (state_norm b1))))
               = Inr (exit_body ex, last (exit_hs ex)))"
proof -
  note c = propagate_completed [OF assms(1,2,3), folded assms(4)]
  have 1: "propagate_taylor_J2 ar b u t0 mu veff J2RG2 a r max_iter max_order = (None, exit_body ex)"
    using assms(3) propagate_body [of ar b u t0 mu veff J2RG2 a r max_iter max_order]
    unfolding assms(4) by (simp add: prod_eq_iff)
  have 2: "exit_hs ex \<noteq> [] \<and> last (exit_hs ex) = exit_step ex \<and> sum_list (exit_hs ex) = sum_list [] + t0"
    using loop_completed [of ar u mu veff J2RG2 _ _ max_iter max_order 0 t0 b "[]"] c
    unfolding assms(4) by blast
  obtain b1 where "J2_iteration ar u mu veff J2RG2 (d_pow10 ar a) (d_pow10 ar r) max_order
              (exit_step ex) b1 = Break (exit_body ex) (last (exit_hs ex))"
    using loop_last_pass [of ar u mu veff J2RG2 _ _ max_iter max_order 0 t0 b "[]"] c
    unfolding assms(4) by blast
  note 3 = iteration_Break(1) [OF this]
  show ?thesis using 1 2 3 by auto
qed


lemma circular_orbit_loop_tenth:
  "J2_loop exact (0, 0, 0) 1 1 0 (1 / 10) (1 / 10) 100000 3000 0 (1 / 10) circular_orbit [] =
     \<lparr>raised = None, exit_body = arrival, exit_j = 0, exit_step = 1 / 10, exit_hs = [1 / 10]\<rparr>"
  using loop_Break [OF _ circular_orbit_pass_tenth, of 0 100000 "[]"] by simp

lemma circular_orbit_call_tenth:
  "propagate_taylor_J2 exact circular_orbit (0, 0, 0) (1 / 10) 1 1 0 (- 1) (- 1) 100000 3000 = (None, arrival)"
  unfolding propagate_taylor_J2_def Let_def d_pow10_exact pow10_m1 circular_orbit_loop_tenth
  by simp

lemma state_norm_arrival: "0 < state_norm arrival"
  by (simp add: state_norm_def arrival_def ix0_def ix1_def ix2_def)

lemma regular_arrival: "\<not> singular arrival 1"
  by (simp add: singular_def arrival_def)

lemma arrival_call_zero:
  "propagate_taylor_J2 exact arrival (0, 0, 0) 0 1 1 0 (- 1) (- 1) 100000 3000 = (None, arrival)"
  by (rule propagate_zero) (simp_all add: select_order_tenth pow10_m1 state_norm_arrival regular_arrival)

lemma arrival_loop_zero:
  "J2_loop exact (0, 0, 0) 1 1 0 (1 / 10) (1 / 10) 100000 3000 0 0 arrival [] =
     \<lparr>raised = None, exit_body = arrival, exit_j = 0, exit_step = 0, exit_hs = [0]\<rparr>"
  by (rule loop_zero) (simp_all add: select_order_tenth state_norm_arrival regular_arrival)

theorem completed_call_witness:
  "propagate_taylor_J2 exact circular_orbit (0, 0, 0) (1 / 10) 1 1 0 (- 1) (- 1) 100000 3000 = (None, arrival) \<and>
   last (exit_hs (J2_loop exact (0, 0, 0) 1 1 0 (10 powr real_of_int (- 1)) (10 powr real_of_int (- 1)) 100000 3000
                    0 (1 / 10) circular_orbit [])) = 1 / 10 \<and>
   sum_list (exit_hs (J2_loop exact (0, 0, 0) 1 1 0 (10 powr real_of_int (- 1)) (10 powr real_of_int (- 1)) 100000 3000
                    0 (1 / 10) circular_orbit [])) = 1 / 10"
proof -
  have c: "fst (propagate_taylor_J2 exact circular_orbit (0, 0, 0) (1 / 10) 1 1 0 (- 1) (- 1) 100000 3000) = None"
    by (simp add: circular_orbit_call_tenth)
  have r: "- (2 ^ 31) < (100000::int)" "(100000::int) < 2 ^ 31" by simp_all
  note t = completed_call [OF r c refl]
  have e: "exit_step (J2_loop exact (0, 0, 0) 1 1 0 (10 powr real_of_int (- 1)) (10 powr real_of_int (- 1)) 100000 3000
                    0 (1 / 10) circular_orbit []) = 1 / 10"
       "exit_body (J2_loop exact (0, 0, 0) 1 1 0 (10 powr real_of_int (- 1)) (10 powr real_of_int (- 1)) 100000 3000
                    0 (1 / 10) circular_orbit []) = arrival"
    unfolding pow10_m1 circular_orbit_loop_tenth by simp_all
  show ?thesis
    using t [THEN conjunct1] t [THEN conjunct2, THEN conjunct2, THEN conjunct1]
      t [THEN conjunct2, THEN conjunct2, THEN conjunct2, THEN conjunct1]
    unfolding d_pow10_exact e by (intro conjI)
qed

text \<open>
  Claim C9 as stated fails: the entry point returns nothing, and the length of the last
  step is a local variable of the loop. Two completed calls leave their callers the same
  thing, the state \<open>arrival\<close>, and their last steps differ: from the circular orbit over a
  duration of one tenth the single step is one tenth long; from \<open>arrival\<close> over a duration
  of zero it is zero.
\<close>

theorem last_step_not_exposed:
  "propagate_taylor_J2 exact circular_orbit (0, 0, 0) (1 / 10) 1 1 0 (- 1) (- 1) 100000 3000 = (None, arrival) \<and>
   propagate_taylor_J2 exact arrival (0, 0, 0) 0 1 1 0 (- 1) (- 1) 100000 3000 = (None, arrival) \<and>
   exit_hs (J2_loop exact (0, 0, 0) 1 1 0 (10 powr real_of_int (- 1)) (10 powr real_of_int (- 1)) 100000 3000
              0 (1 / 10) circular_orbit []) = [1 / 10] \<and>
   exit_hs (J2_loop exact (0, 0, 0) 1 1 0 (10 powr real_of_int (- 1)) (10 powr real_of_int (- 1)) 100000 3000
              0 0 arrival []) = [0]"
  unfolding pow10_m1 circular_orbit_loop_tenth arrival_loop_zero
  by (simp add: circular_orbit_call_tenth arrival_call_zero)

text \<open>
  The mass after a completed call: the steps add up to \<open>t0\<close>, so the mass has changed by
  minus the norm of the thrust over \<open>veff\<close>, times the requested duration.
\<close>

lemma completed_call_mass:
  assumes "- (2 ^ 31) < max_iter" and "max_iter < 2 ^ 31"
    and "fst (propagate_taylor_J2 ar b u t0 mu veff J2RG2 a r max_iter max_order) = None"
  shows "m0 (snd (propagate_taylor_J2 ar b u t0 mu veff J2RG2 a r max_iter max_order)) = m0 b - sqrtT u / veff * t0"
proof -
  note c = propagate_completed [OF assms]
  have "sum_list (exit_hs (J2_loop ar u mu veff J2RG2 (d_pow10 ar a) (d_pow10 ar r)
          max_iter max_order 0 t0 b [])) = sum_list [] + t0"
    using loop_completed [of ar u mu veff J2RG2 _ _ max_iter max_order 0 t0 b "[]"] c by blast
  then show ?thesis
    unfolding propagate_body
    using loop_mass [of ar u mu veff J2RG2 "d_pow10 ar a" "d_pow10 ar r" max_iter max_order 0 t0 b "[]"]
    by simp
qed

subsection \<open>Errors before the first step\<close>

text \<open>
  Claim C10. A call in which no step was completed leaves position, velocity and mass as
  they were, whether it raises an error or not. With \<open>max_iter \<le> 0\<close> the loop is not
  entered and the call raises \<open>IterationLimitExceeded\<close>, whatever the requested duration;
  with \<open>max_iter \<ge> 1\<close> and a first selected order above \<open>max_order\<close> it raises
  \<open>OrderExceeded\<close>; in both cases the state is untouched.
\<close>

theorem error_before_first_step:
  "(exit_hs (J2_loop ar u mu veff J2RG2 (d_pow10 ar a) (d_pow10 ar r) max_iter max_order 0 t0 b []) = [] \<longrightarrow>
      snd (propagate_taylor_J2 ar b u t0 mu veff J2RG2 a r max_iter max_order) = b) \<and>
   (max_iter \<le> 0 \<longrightarrow>
      propagate_taylor_J2 ar b u t0 mu veff J2RG2 a r max_iter max_order = (Some IterationLimitExceeded, b)) \<and>
   (1 \<le> max_iter \<and>
    max_order < select_order ar (d_pow10 ar a) (d_pow10 ar r) (state_norm b) \<longrightarrow>
      propagate_taylor_J2 ar b u t0 mu veff J2RG2 a r max_iter max_order = (Some OrderExceeded, b))"
proof (intro conjI impI)
  assume "exit_hs (J2_loop ar u mu veff J2RG2 (d_pow10 ar a) (d_pow10 ar r) max_iter max_order 0 t0 b []) = []"
  then show "snd (propagate_taylor_J2 ar b u t0 mu veff J2RG2 a r max_iter max_order) = b"
    unfolding propagate_body using loop_untouched by blast
next
  assume h: "max_iter \<le> 0"
  then have "\<not> 0 < max_iter" by simp
  note l = loop_done [OF this, of ar u mu veff J2RG2 "d_pow10 ar a" "d_pow10 ar r" max_order t0 b "[]"]
  show "propagate_taylor_J2 ar b u t0 mu veff J2RG2 a r max_iter max_order = (Some IterationLimitExceeded, b)"
    using h by (simp add: propagate_taylor_J2_def Let_def l)
next
  assume h: "1 \<le> max_iter \<and>
    max_order < select_order ar (d_pow10 ar a) (d_pow10 ar r) (state_norm b)"
  then have "J2_iteration ar u mu veff J2RG2 (d_pow10 ar a) (d_pow10 ar r) max_order t0 b
               = Throw OrderExceeded"
    by (simp add: iteration_OrderExceeded)
  then have "J2_loop ar u mu veff J2RG2 (d_pow10 ar a) (d_pow10 ar r) max_iter max_order 0 t0 b [] =
     \<lparr>raised = Some OrderExceeded, exit_body = b, exit_j = 0, exit_step = t0, exit_hs = []\<rparr>"
    using h by (intro loop_Throw) simp_all
  then show "propagate_taylor_J2 ar b u t0 mu veff J2RG2 a r max_iter max_order = (Some OrderExceeded, b)"
    by (simp add: propagate_taylor_J2_def)
qed

theorem error_before_first_step_witness:
  "propagate_taylor_J2 exact circular_orbit (0, 0, 0) 0 1 1 0 (- 10) (- 10) 0 3000
     = (Some IterationLimitExceeded, circular_orbit) \<and>
   propagate_taylor_J2 exact circular_orbit (0, 0, 0) 1 1 1 0 (- 10) (- 10) (- 2147483648) 3000
     = (Some IterationLimitExceeded, circular_orbit) \<and>
   propagate_taylor_J2 exact circular_orbit (0, 0, 0) 1 1 1 0 (- 10) (- 10) 100000 5
     = (Some OrderExceeded, circular_orbit) \<and>
   snd (propagate_taylor_J2 exact circular_orbit (0, 0, 0) 1 1 1 0 2 2 100000 3000) = circular_orbit"
proof -
  have 1: "propagate_taylor_J2 exact circular_orbit (0, 0, 0) 0 1 1 0 (- 10) (- 10) 0 3000
     = (Some IterationLimitExceeded, circular_orbit)"
    using error_before_first_step [THEN conjunct2, THEN conjunct1, rule_format,
        of 0 exact circular_orbit "(0, 0, 0)" 0 1 1 0 "- 10" "- 10" 3000] by simp
  have 2: "propagate_taylor_J2 exact circular_orbit (0, 0, 0) 1 1 1 0 (- 10) (- 10) (- 2147483648) 3000
     = (Some IterationLimitExceeded, circular_orbit)"
    using error_before_first_step [THEN conjunct2, THEN conjunct1, rule_format,
        of "- 2147483648" exact circular_orbit "(0, 0, 0)" 1 1 1 0 "- 10" "- 10" 3000] by simp
  have o: "5 < select_order exact (d_pow10 exact (- 10)) (d_pow10 exact (- 10)) (state_norm circular_orbit)"
    unfolding d_pow10_exact using select_order_default(1) [of "state_norm circular_orbit"] by linarith
  have 3: "propagate_taylor_J2 exact circular_orbit (0, 0, 0) 1 1 1 0 (- 10) (- 10) 100000 5
     = (Some OrderExceeded, circular_orbit)"
    using error_before_first_step [THEN conjunct2, THEN conjunct2, rule_format,
        of 100000 5 exact "- 10" "- 10" circular_orbit "(0, 0, 0)" 1 1 1 0] o by simp
  have "J2_iteration exact (0, 0, 0) 1 1 0 (d_pow10 exact 2) (d_pow10 exact 2) 3000 1 circular_orbit
          = Throw LengthError"
    unfolding J2_iteration_def Let_def d_pow10_exact
    using select_order_hundred [of "state_norm circular_orbit"] by simp
  then have "exit_hs (J2_loop exact (0, 0, 0) 1 1 0 (d_pow10 exact 2) (d_pow10 exact 2) 100000 3000 0 1
      circular_orbit []) = []"
    by (subst loop_Throw) simp_all
  then have 4: "snd (propagate_taylor_J2 exact circular_orbit (0, 0, 0) 1 1 1 0 2 2 100000 3000) = circular_orbit"
    using error_before_first_step [THEN conjunct1, rule_format,
        of exact "(0, 0, 0)" 1 1 0 2 2 100000 3000 1 circular_orbit] by simp
  from 1 2 3 4 show ?thesis by (intro conjI)
qed

end
